theory Spec2Isabelle
  imports Complex_Main "HOL-Library.Multiset" "HOL-Library.Sublist" "HOL-Library.Product_Lexorder"
begin

section \<open>Configuration (src/models/index.ts, CONFIDENCE\_CONFIG)\<close>

text \<open>
  JavaScript numbers are modelled as exact reals: every arithmetic expression of the
  source is read as the real-number expression it denotes. Counters are naturals and
  instants are integers (milliseconds since the epoch, as \<open>Date.getTime\<close> returns).
\<close>

definition initialHumanCorrectionConfidence :: real where
  "initialHumanCorrectionConfidence = 0.6"

definition autoApplyThreshold :: real where
  "autoApplyThreshold = 0.85"

definition suggestionThreshold :: real where
  "suggestionThreshold = 0.70"

definition minimumThreshold :: real where
  "minimumThreshold = 0.50"

definition maxConfidence :: real where
  "maxConfidence = 0.95"

definition reinforcementFactor :: real where
  "reinforcementFactor = 0.05"

definition rejectionPenaltyFactor :: real where
  "rejectionPenaltyFactor = 0.7"

definition maxConsecutiveRejectionsBeforeDeactivation :: nat where
  "maxConsecutiveRejectionsBeforeDeactivation = 3"

section \<open>Strings\<close>

text \<open>
  Text is a list of characters, each a code unit below 256 (the Latin-1 range); a text
  with a code unit above this range is outside the model. \<open>toLowerCase\<close> folds the
  letters A to Z and the capital letters of Latin-1 (U+00C0 to U+00DE without the
  multiplication sign), as JavaScript does on these code points, and no other lower-casing
  of JavaScript changes a character of the range. \<open>toUpperCase\<close> acts on the letters a
  to z: the source applies it to a matched currency code only, which is made of these.
  White space is what \<open>\s\<close> and \<open>trim\<close> of JavaScript accept in the range, and the word
  characters of \<open>\w\<close> and \<open>\b\<close> are the ASCII letters, the digits and the underscore.
\<close>

definition isSpace :: "char \<Rightarrow> bool" where
  "isSpace c \<longleftrightarrow> c \<in> set [CHR 0x09, CHR 0x0A, CHR 0x0B, CHR 0x0C, CHR 0x0D, CHR '' '', CHR 0xA0]"

definition isDigit :: "char \<Rightarrow> bool" where
  "isDigit c \<longleftrightarrow> c \<in> set ''0123456789''"

definition upperLetters :: string where
  "upperLetters = ''ABCDEFGHIJKLMNOPQRSTUVWXYZ''"

definition lowerLetters :: string where
  "lowerLetters = ''abcdefghijklmnopqrstuvwxyz''"

definition isLetter :: "char \<Rightarrow> bool" where
  "isLetter c \<longleftrightarrow> c \<in> set upperLetters \<or> c \<in> set lowerLetters"

definition isWordChar :: "char \<Rightarrow> bool" where
  \<comment> \<open>the class \<open>\w\<close>\<close>
  "isWordChar c \<longleftrightarrow> isLetter c \<or> isDigit c \<or> c = CHR ''_''"

definition upperLatin :: string where
  \<comment> \<open>the capital letters of Latin-1 above ASCII\<close>
  "upperLatin =
     [CHR 0xC0, CHR 0xC1, CHR 0xC2, CHR 0xC3, CHR 0xC4, CHR 0xC5, CHR 0xC6, CHR 0xC7,
      CHR 0xC8, CHR 0xC9, CHR 0xCA, CHR 0xCB, CHR 0xCC, CHR 0xCD, CHR 0xCE, CHR 0xCF,
      CHR 0xD0, CHR 0xD1, CHR 0xD2, CHR 0xD3, CHR 0xD4, CHR 0xD5, CHR 0xD6, CHR 0xD8,
      CHR 0xD9, CHR 0xDA, CHR 0xDB, CHR 0xDC, CHR 0xDD, CHR 0xDE]"

definition lowerLatin :: string where
  \<comment> \<open>their small letters, in the same order\<close>
  "lowerLatin =
     [CHR 0xE0, CHR 0xE1, CHR 0xE2, CHR 0xE3, CHR 0xE4, CHR 0xE5, CHR 0xE6, CHR 0xE7,
      CHR 0xE8, CHR 0xE9, CHR 0xEA, CHR 0xEB, CHR 0xEC, CHR 0xED, CHR 0xEE, CHR 0xEF,
      CHR 0xF0, CHR 0xF1, CHR 0xF2, CHR 0xF3, CHR 0xF4, CHR 0xF5, CHR 0xF6, CHR 0xF8,
      CHR 0xF9, CHR 0xFA, CHR 0xFB, CHR 0xFC, CHR 0xFD, CHR 0xFE]"

definition lowerChar :: "char \<Rightarrow> char" where
  "lowerChar c =
     (case map_of (zip (upperLetters @ upperLatin) (lowerLetters @ lowerLatin)) c of
        Some d \<Rightarrow> d | None \<Rightarrow> c)"

definition upperChar :: "char \<Rightarrow> char" where
  "upperChar c = (case map_of (zip lowerLetters upperLetters) c of Some d \<Rightarrow> d | None \<Rightarrow> c)"

definition toLowerCase :: "string \<Rightarrow> string" where
  "toLowerCase s = map lowerChar s"

definition toUpperCase :: "string \<Rightarrow> string" where
  "toUpperCase s = map upperChar s"

definition trim :: "string \<Rightarrow> string" where
  "trim s = rev (dropWhile isSpace (rev (dropWhile isSpace s)))"

fun startsWith :: "string \<Rightarrow> string \<Rightarrow> bool" where
  \<comment> \<open>\<open>startsWith p s\<close>: the text \<open>s\<close> begins with \<open>p\<close>\<close>
  "startsWith [] s = True"
| "startsWith (p # ps) [] = False"
| "startsWith (p # ps) (c # cs) = (p = c \<and> startsWith ps cs)"

fun strIncludes :: "string \<Rightarrow> string \<Rightarrow> bool" where
  \<comment> \<open>\<open>strIncludes s p\<close> is \<open>s.includes(p)\<close>\<close>
  "strIncludes [] p = (p = [])"
| "strIncludes (c # cs) p = (startsWith p (c # cs) \<or> strIncludes cs p)"

function collapseSpaces :: "string \<Rightarrow> string" where
  \<comment> \<open>\<open>s.replace(/\s+/g, ' ')\<close>\<close>
  "collapseSpaces [] = []"
| "collapseSpaces (c # cs) =
     (if isSpace c then CHR '' '' # collapseSpaces (dropWhile isSpace cs)
      else c # collapseSpaces cs)"
  by pat_completeness auto
termination
  by (relation "measure length") (auto simp: length_dropWhile_le le_imp_less_Suc)

fun join :: "string \<Rightarrow> string list \<Rightarrow> string" where
  \<comment> \<open>\<open>join sep xs\<close> is \<open>xs.join(sep)\<close>\<close>
  "join sep [] = []"
| "join sep [x] = x"
| "join sep (x # y # ys) = x @ sep @ join sep (y # ys)"

definition digitChar :: "nat \<Rightarrow> char" where
  "digitChar d = ''0123456789'' ! (d mod 10)"

function showNat :: "nat \<Rightarrow> string" where
  "showNat n = (if n < 10 then [digitChar n] else showNat (n div 10) @ [digitChar (n mod 10)])"
  by pat_completeness auto
termination
  by (relation "measure (\<lambda>n. n)") auto

definition showInt :: "int \<Rightarrow> string" where
  "showInt i = (if i < 0 then CHR ''-'' # showNat (nat (- i)) else showNat (nat i))"

definition fixedDigits :: "nat \<Rightarrow> real \<Rightarrow> string" where
  \<comment> \<open>the digits of a non-negative number rounded to \<open>f\<close> decimals, ties upwards\<close>
  "fixedDigits f x =
     (let ds = showNat (nat \<lfloor>x * 10 ^ f + 1 / 2\<rfloor>);
          ps = replicate (Suc f - length ds) (CHR ''0'') @ ds
      in if f = 0 then ps
         else take (length ps - f) ps @ ''.'' @ drop (length ps - f) ps)"

definition toFixed :: "nat \<Rightarrow> real \<Rightarrow> string" where
  \<comment> \<open>\<open>x.toFixed(f)\<close> on the exact value of \<open>x\<close> (below 1e21)\<close>
  "toFixed f x = (if x < 0 then CHR ''-'' # fixedDigits f (- x) else fixedDigits f x)"

definition arrow :: string where
  \<comment> \<open>the character U+2192 of the source's messages, which lies outside the range of the
      model's characters, as its three UTF-8 bytes\<close>
  "arrow = [CHR 0xE2, CHR 0x86, CHR 0x92]"

fun dedup :: "'a list \<Rightarrow> 'a list" where
  \<comment> \<open>\<open>[...new Set(xs)]\<close>: the first occurrence of each element, in order\<close>
  "dedup [] = []"
| "dedup (x # xs) = x # dedup (filter (\<lambda>y. y \<noteq> x) xs)"

section \<open>Confidence arithmetic (src/services/confidence.ts)\<close>

datatype ThresholdAction = auto_applied | suggested | flagged

definition applyReinforcement :: "real \<Rightarrow> real" where
  "applyReinforcement confidence =
     min (confidence + reinforcementFactor * (1 - confidence)) maxConfidence"

definition applyPenalty :: "real \<Rightarrow> real" where
  "applyPenalty confidence = max (confidence * rejectionPenaltyFactor) 0"

definition mapConfidenceToAction :: "real \<Rightarrow> ThresholdAction" where
  "mapConfidenceToAction confidence =
     (if confidence \<ge> autoApplyThreshold then auto_applied
      else if confidence \<ge> suggestionThreshold then suggested
      else flagged)"

definition normalizeVendorName :: "string \<Rightarrow> string" where
  "normalizeVendorName vendorName = collapseSpaces (trim (toLowerCase vendorName))"

section \<open>Data model (src/models/index.ts)\<close>

record LineItem =
  li_sku :: "string option"
  li_qty :: real

text \<open>
  A value of type \<open>unknown\<close>: \<open>null\<close>, a boolean, a number, a string, a list of strings
  or the list of line items of an invoice. A missing property (\<open>undefined\<close>) is \<open>None\<close>
  of an option.
\<close>

datatype JsValue =
    JNull
  | JBool bool
  | JNum real
  | JStr string
  | JStrings "string list"
  | JItems "LineItem list"

fun truthy :: "JsValue option \<Rightarrow> bool" where
  "truthy None = False"
| "truthy (Some JNull) = False"
| "truthy (Some (JBool b)) = b"
| "truthy (Some (JNum x)) = (x \<noteq> 0)"
| "truthy (Some (JStr s)) = (s \<noteq> [])"
| "truthy (Some (JStrings xs)) = True"
| "truthy (Some (JItems xs)) = True"

fun isNullish :: "JsValue option \<Rightarrow> bool" where
  \<comment> \<open>\<open>v == null\<close>\<close>
  "isNullish None = True"
| "isNullish (Some JNull) = True"
| "isNullish (Some v) = False"

fun String :: "(real \<Rightarrow> string) \<Rightarrow> JsValue option \<Rightarrow> string" where
  \<comment> \<open>\<open>String(v)\<close>; the rendering of a number is the parameter \<open>num\<close>\<close>
  "String num None = ''undefined''"
| "String num (Some JNull) = ''null''"
| "String num (Some (JBool b)) = (if b then ''true'' else ''false'')"
| "String num (Some (JNum x)) = num x"
| "String num (Some (JStr s)) = s"
| "String num (Some (JStrings xs)) = join '','' xs"
| "String num (Some (JItems xs)) = join '','' (map (\<lambda>i. ''[object Object]'') xs)"

record VendorMemory =
  vm_id :: string
  vm_vendorId :: string
  vm_vendorName :: string
  vm_originalFieldName :: string
  vm_normalizedFieldName :: string
  vm_confidence :: real
  vm_applicationCount :: nat
  vm_consecutiveRejections :: nat
  vm_createdAt :: int
  vm_lastUsedAt :: int
  vm_isActive :: bool

record CorrectionMemory =
  cm_id :: string
  cm_vendorId :: "string option"
  cm_fieldName :: string
  cm_originalValuePattern :: string
  cm_correctedValue :: string
  cm_confidence :: real
  cm_applicationCount :: nat
  cm_consecutiveRejections :: nat
  cm_createdAt :: int
  cm_lastUsedAt :: int
  cm_isActive :: bool

record ResolutionMemory =
  rm_id :: string
  rm_discrepancyType :: string
  rm_context :: "(string \<times> JsValue) list"
  rm_approvalCount :: nat
  rm_rejectionCount :: nat
  rm_createdAt :: int
  rm_lastUsedAt :: int
  rm_isActive :: bool

record InvoiceField =
  if_name :: string
  if_value :: JsValue
  if_extractionConfidence :: real
  if_originalLabel :: "string option"

text \<open>
  The fields of an invoice are an association list in the order of \<open>Object.entries\<close>;
  a JavaScript object holds each key once.
\<close>

record Invoice =
  inv_id :: string
  inv_vendorId :: string
  inv_vendorName :: string
  inv_invoiceNumber :: string
  inv_invoiceDate :: int
  inv_fields :: "(string \<times> InvoiceField) list"
  inv_rawText :: "string option"

datatype Step = StepRecall | StepApply | StepDecide | StepLearn

record AuditEntry =
  ae_step :: Step
  ae_timestamp :: int
  ae_details :: string

record FieldCorrection =
  fc_fieldName :: string
  fc_originalValue :: "JsValue option"
  fc_correctedValue :: "JsValue option"

datatype FeedbackAction = approve | reject | correct

record HumanFeedback =
  hf_invoiceId :: string
  hf_action :: FeedbackAction
  hf_corrections :: "FieldCorrection list option"
  hf_timestamp :: int

section \<open>Memory store (repository/memory-repository.ts, in src/test/fixtures/index.ts)\<close>

text \<open>
  Each SQL table is the list of its rows in insertion order. \<open>ORDER BY\<close> is a stable
  sort of the selected rows. A violated \<open>PRIMARY KEY\<close> or \<open>UNIQUE\<close> constraint is
  the error \<open>SqliteConstraint\<close> that the driver would throw.
\<close>

datatype error = SqliteConstraint

record StoredAuditEntry =
  sa_invoiceId :: string
  sa_entry :: AuditEntry

record ProcessedInvoice =
  pi_id :: string
  pi_vendorId :: string
  pi_invoiceNumber :: string
  pi_invoiceDate :: int
  pi_processedAt :: int

record Repository =
  vendor_memories :: "VendorMemory list"
  correction_memories :: "CorrectionMemory list"
  resolution_memories :: "ResolutionMemory list"
  audit_trail :: "StoredAuditEntry list"
  processed_invoices :: "ProcessedInvoice list"

record MemoryUpdate =
  \<comment> \<open>\<open>Partial<...>\<close>: the properties an update call supplies\<close>
  u_confidence :: "real option"
  u_applicationCount :: "nat option"
  u_consecutiveRejections :: "nat option"
  u_lastUsedAt :: "int option"
  u_isActive :: "bool option"
  u_correctedValue :: "string option"

definition noUpdate :: MemoryUpdate where
  "noUpdate = \<lparr>u_confidence = None, u_applicationCount = None, u_consecutiveRejections = None,
     u_lastUsedAt = None, u_isActive = None, u_correctedValue = None\<rparr>"

definition orElse :: "'a option \<Rightarrow> 'a \<Rightarrow> 'a" where
  "orElse v d = (case v of Some x \<Rightarrow> x | None \<Rightarrow> d)"

definition findVendorMemories :: "Repository \<Rightarrow> string \<Rightarrow> VendorMemory list" where
  "findVendorMemories repo vendorId =
     sort_key (\<lambda>m. - vm_confidence m)
       (filter (\<lambda>m. vm_vendorId m = vendorId \<and> vm_isActive m) (vendor_memories repo))"

definition findVendorMemoryById :: "Repository \<Rightarrow> string \<Rightarrow> VendorMemory option" where
  "findVendorMemoryById repo i = find (\<lambda>m. vm_id m = i) (vendor_memories repo)"

definition saveVendorMemory :: "Repository \<Rightarrow> VendorMemory \<Rightarrow> error + Repository" where
  "saveVendorMemory repo m =
     (if \<exists>r \<in> set (vendor_memories repo).
           vm_id r = vm_id m
           \<or> (vm_vendorId r = vm_vendorId m \<and> vm_originalFieldName r = vm_originalFieldName m)
      then Inl SqliteConstraint
      else Inr (repo\<lparr>vendor_memories := vendor_memories repo @ [m]\<rparr>))"

definition vendorSet :: "MemoryUpdate \<Rightarrow> VendorMemory \<Rightarrow> VendorMemory" where
  \<comment> \<open>the \<open>SET\<close> clauses built from VENDOR\_FIELDS\<close>
  "vendorSet u m = m\<lparr>
     vm_confidence := orElse (u_confidence u) (vm_confidence m),
     vm_applicationCount := orElse (u_applicationCount u) (vm_applicationCount m),
     vm_consecutiveRejections := orElse (u_consecutiveRejections u) (vm_consecutiveRejections m),
     vm_lastUsedAt := orElse (u_lastUsedAt u) (vm_lastUsedAt m),
     vm_isActive := orElse (u_isActive u) (vm_isActive m)\<rparr>"

definition updateVendorMemory :: "Repository \<Rightarrow> string \<Rightarrow> MemoryUpdate \<Rightarrow> Repository" where
  "updateVendorMemory repo i u =
     repo\<lparr>vendor_memories :=
       map (\<lambda>m. if vm_id m = i then vendorSet u m else m) (vendor_memories repo)\<rparr>"

definition findCorrectionMemories ::
  "Repository \<Rightarrow> string option \<Rightarrow> string \<Rightarrow> CorrectionMemory list" where
  "findCorrectionMemories repo vendorId fieldName =
     sort_key (\<lambda>m. - cm_confidence m)
       (filter (\<lambda>m. (case vendorId of
                        None \<Rightarrow> cm_vendorId m = None
                      | Some v \<Rightarrow> cm_vendorId m = Some v \<or> cm_vendorId m = None)
                    \<and> cm_fieldName m = fieldName \<and> cm_isActive m)
          (correction_memories repo))"

definition findCorrectionMemoryById :: "Repository \<Rightarrow> string \<Rightarrow> CorrectionMemory option" where
  "findCorrectionMemoryById repo i = find (\<lambda>m. cm_id m = i) (correction_memories repo)"

definition saveCorrectionMemory :: "Repository \<Rightarrow> CorrectionMemory \<Rightarrow> error + Repository" where
  "saveCorrectionMemory repo m =
     (if \<exists>r \<in> set (correction_memories repo). cm_id r = cm_id m
      then Inl SqliteConstraint
      else Inr (repo\<lparr>correction_memories := correction_memories repo @ [m]\<rparr>))"

definition correctionSet :: "MemoryUpdate \<Rightarrow> CorrectionMemory \<Rightarrow> CorrectionMemory" where
  \<comment> \<open>the \<open>SET\<close> clauses built from CORRECTION\_FIELDS\<close>
  "correctionSet u m = m\<lparr>
     cm_confidence := orElse (u_confidence u) (cm_confidence m),
     cm_applicationCount := orElse (u_applicationCount u) (cm_applicationCount m),
     cm_consecutiveRejections := orElse (u_consecutiveRejections u) (cm_consecutiveRejections m),
     cm_lastUsedAt := orElse (u_lastUsedAt u) (cm_lastUsedAt m),
     cm_isActive := orElse (u_isActive u) (cm_isActive m),
     cm_correctedValue := orElse (u_correctedValue u) (cm_correctedValue m)\<rparr>"

definition updateCorrectionMemory :: "Repository \<Rightarrow> string \<Rightarrow> MemoryUpdate \<Rightarrow> Repository" where
  "updateCorrectionMemory repo i u =
     repo\<lparr>correction_memories :=
       map (\<lambda>m. if cm_id m = i then correctionSet u m else m) (correction_memories repo)\<rparr>"

definition findResolutionMemories :: "Repository \<Rightarrow> string \<Rightarrow> ResolutionMemory list" where
  "findResolutionMemories repo discrepancyType =
     sort_key (\<lambda>m. - int (rm_approvalCount m + rm_rejectionCount m))
       (filter (\<lambda>m. rm_discrepancyType m = discrepancyType \<and> rm_isActive m)
          (resolution_memories repo))"

definition saveAuditEntry :: "Repository \<Rightarrow> StoredAuditEntry \<Rightarrow> Repository" where
  "saveAuditEntry repo entry = repo\<lparr>audit_trail := audit_trail repo @ [entry]\<rparr>"

definition getAuditTrail :: "Repository \<Rightarrow> string \<Rightarrow> AuditEntry list" where
  "getAuditTrail repo invoiceId =
     sort_key ae_timestamp
       (map sa_entry (filter (\<lambda>e. sa_invoiceId e = invoiceId) (audit_trail repo)))"

definition dayMs :: int where
  "dayMs = 86400000"

definition dateOf :: "int \<Rightarrow> int" where
  \<comment> \<open>the UTC calendar day of an instant, as a day number: what \<open>date(...)\<close> of SQLite and
      \<open>toISOString().split('T')[0]\<close> keep of it\<close>
  "dateOf t = t div dayMs"

definition findPotentialDuplicates :: "Repository \<Rightarrow> string \<Rightarrow> string \<Rightarrow> int \<Rightarrow> string list" where
  "findPotentialDuplicates repo vendorId invoiceNumber date =
     (let d = date; week = 7 * dayMs;
          start = dateOf (d - week); end = dateOf (d + week)
      in map pi_id
           (filter (\<lambda>r. pi_vendorId r = vendorId \<and> pi_invoiceNumber r = invoiceNumber
                        \<and> start \<le> dateOf (pi_invoiceDate r) \<and> dateOf (pi_invoiceDate r) \<le> end)
              (processed_invoices repo)))"

definition saveProcessedInvoice ::
  "int \<Rightarrow> Repository \<Rightarrow> string \<Rightarrow> string \<Rightarrow> string \<Rightarrow> int \<Rightarrow> Repository" where
  \<comment> \<open>\<open>INSERT OR REPLACE\<close>: a row with the same id is removed first; \<open>now\<close> is the clock\<close>
  "saveProcessedInvoice now repo i vendorId invoiceNumber invoiceDate =
     repo\<lparr>processed_invoices :=
       filter (\<lambda>r. pi_id r \<noteq> i) (processed_invoices repo)
       @ [\<lparr>pi_id = i, pi_vendorId = vendorId, pi_invoiceNumber = invoiceNumber,
           pi_invoiceDate = invoiceDate, pi_processedAt = now\<rparr>]\<rparr>"

section \<open>Recall stage (services/recall.ts, src/unnamed/part\_001)\<close>

record RecalledMemories =
  vendorMemories :: "VendorMemory list"
  correctionMemories :: "CorrectionMemory list"
  resolutionMemories :: "ResolutionMemory list"

record RecallResult =
  rr_memories :: RecalledMemories
  rr_auditEntry :: AuditEntry

definition filterByConfidence :: "('a \<Rightarrow> real) \<Rightarrow> 'a list \<Rightarrow> 'a list" where
  \<comment> \<open>\<open>conf\<close> reads the property \<open>confidence\<close>; \<open>Array.sort\<close> is stable\<close>
  "filterByConfidence conf memories =
     sort_key (\<lambda>m. - conf m) (filter (\<lambda>m. conf m \<ge> minimumThreshold) memories)"

definition pushUnseen :: "('a \<Rightarrow> string) \<Rightarrow> 'a \<Rightarrow> string list \<times> 'a list \<Rightarrow> string list \<times> 'a list" where
  \<comment> \<open>\<open>if (!seen.has(m.id)) { seen.add(m.id); all.push(m); }\<close>\<close>
  "pushUnseen ident m st =
     (case st of (seen, all) \<Rightarrow>
        if ident m \<in> set seen then (seen, all) else (seen @ [ident m], all @ [m]))"

definition recallCorrectionMemories :: "Repository \<Rightarrow> string \<Rightarrow> string list \<Rightarrow> CorrectionMemory list" where
  "recallCorrectionMemories repo vendorId fieldNames =
     filterByConfidence cm_confidence
       (snd (fold (\<lambda>field. fold (pushUnseen cm_id)
                     (findCorrectionMemories repo (Some vendorId) field
                      @ findCorrectionMemories repo None field))
               fieldNames ([], [])))"

definition discrepancyMap :: "(string \<times> string) list" where
  "discrepancyMap =
     [(''quantity'', ''quantity_mismatch''), (''qty'', ''quantity_mismatch''),
      (''price'', ''price_mismatch''), (''amount'', ''price_mismatch''),
      (''total'', ''price_mismatch''), (''date'', ''date_mismatch''),
      (''tax'', ''tax_mismatch''), (''vat'', ''tax_mismatch''), (''mwst'', ''tax_mismatch''),
      (''currency'', ''currency_mismatch''), (''po'', ''po_mismatch''),
      (''purchase'', ''po_mismatch'')]"

definition extractDiscrepancyTypes :: "Invoice \<Rightarrow> string list" where
  "extractDiscrepancyTypes invoice =
     fold (\<lambda>field. fold (\<lambda>(key, type) types.
                     if strIncludes (toLowerCase field) key \<and> type \<notin> set types
                     then types @ [type] else types)
                   discrepancyMap)
       (map fst (inv_fields invoice)) []"

definition approvalRate :: "ResolutionMemory \<Rightarrow> real" where
  "approvalRate m = real (rm_approvalCount m) / real (rm_approvalCount m + rm_rejectionCount m)"

definition recallResolutionMemories :: "Repository \<Rightarrow> Invoice \<Rightarrow> ResolutionMemory list" where
  "recallResolutionMemories repo invoice =
     (let types = extractDiscrepancyTypes invoice;
          all = snd (fold (\<lambda>type. fold (pushUnseen rm_id) (findResolutionMemories repo type))
                        types ([], []))
      in sort_key (\<lambda>m. (- approvalRate m, - int (rm_approvalCount m + rm_rejectionCount m)))
           (filter (\<lambda>m. rm_approvalCount m + rm_rejectionCount m > 0) all))"

definition buildAuditDetails :: "RecalledMemories \<Rightarrow> Invoice \<Rightarrow> string" where
  "buildAuditDetails memories invoice =
     (let v = vendorMemories memories; c = correctionMemories memories;
          r = resolutionMemories memories;
          total = length v + length c + length r
      in if total = 0
         then ''Recalled 0 memories for invoice '' @ inv_id invoice @ '' from vendor ''
              @ inv_vendorName invoice @ ''. No relevant memories found.''
         else join '' ''
           ([''Recalled '' @ showNat total @ '' memories for invoice '' @ inv_id invoice
               @ '' from vendor '' @ inv_vendorName invoice @ '':'']
            @ (case v of [] \<Rightarrow> []
               | v0 # _ \<Rightarrow> [showNat (length v) @ '' vendor memories (top: ''
                   @ vm_originalFieldName v0 @ '' '' @ arrow @ '' '' @ vm_normalizedFieldName v0
                   @ '', conf: '' @ toFixed 2 (vm_confidence v0) @ '')''])
            @ (case c of [] \<Rightarrow> []
               | c0 # _ \<Rightarrow> [showNat (length c) @ '' correction memories (top: ''
                   @ cm_fieldName c0 @ '', conf: '' @ toFixed 2 (cm_confidence c0) @ '')''])
            @ (case r of [] \<Rightarrow> []
               | r0 # _ \<Rightarrow> [showNat (length r) @ '' resolution memories (top: ''
                   @ rm_discrepancyType r0 @ '', approval rate: ''
                   @ toFixed 0 (approvalRate r0 * 100) @ ''%)''])))"

definition recallMemories :: "int \<Rightarrow> Repository \<Rightarrow> Invoice \<Rightarrow> RecallResult" where
  \<comment> \<open>\<open>now\<close> is the instant the clock gives\<close>
  "recallMemories now repo invoice =
     (let vendorId = normalizeVendorName (inv_vendorId invoice);
          fieldNames = map fst (inv_fields invoice);
          memories = \<lparr>
            vendorMemories = filterByConfidence vm_confidence (findVendorMemories repo vendorId),
            correctionMemories = recallCorrectionMemories repo vendorId fieldNames,
            resolutionMemories = recallResolutionMemories repo invoice\<rparr>
      in \<lparr>rr_memories = memories,
          rr_auditEntry = \<lparr>ae_step = StepRecall, ae_timestamp = now,
            ae_details = buildAuditDetails memories invoice\<rparr>\<rparr>)"

section \<open>Apply stage (services/apply.ts, src/unnamed/part\_000)\<close>

subsection \<open>The regular expressions of the source\<close>

text \<open>
  Each regular expression of the source is a function that tries to match at the start of
  a text; \<open>firstMatch\<close> tries every start position from the left, as \<open>String.match\<close>
  does. Greedy repetition with backtracking takes a continuation for the rest of the
  expression; the \<open>i\<close> flag compares letters without case.
\<close>

fun firstMatch :: "(string \<Rightarrow> 'a option) \<Rightarrow> string \<Rightarrow> 'a option" where
  "firstMatch f [] = f []"
| "firstMatch f (c # cs) = (case f (c # cs) of Some r \<Rightarrow> Some r | None \<Rightarrow> firstMatch f cs)"

fun ciStrip :: "string \<Rightarrow> string \<Rightarrow> string option" where
  \<comment> \<open>a literal, without case: the text after it\<close>
  "ciStrip [] s = Some s"
| "ciStrip (p # ps) [] = None"
| "ciStrip (p # ps) (c # cs) = (if lowerChar p = lowerChar c then ciStrip ps cs else None)"

fun starCap :: "(char \<Rightarrow> bool) \<Rightarrow> (string \<Rightarrow> string \<Rightarrow> 'a option) \<Rightarrow> string \<Rightarrow> string \<Rightarrow> 'a option" where
  \<comment> \<open>\<open>cls*\<close>, greedy: the continuation gets the characters taken and the rest\<close>
  "starCap cls k acc [] = k acc []"
| "starCap cls k acc (c # cs) =
     (if cls c
      then (case starCap cls k (acc @ [c]) cs of Some r \<Rightarrow> Some r | None \<Rightarrow> k acc (c # cs))
      else k acc (c # cs))"

definition star :: "(char \<Rightarrow> bool) \<Rightarrow> (string \<Rightarrow> 'a option) \<Rightarrow> string \<Rightarrow> 'a option" where
  "star cls k s = starCap cls (\<lambda>taken. k) [] s"

definition plusCap :: "(char \<Rightarrow> bool) \<Rightarrow> (string \<Rightarrow> string \<Rightarrow> 'a option) \<Rightarrow> string \<Rightarrow> 'a option" where
  \<comment> \<open>\<open>(cls+)\<close>\<close>
  "plusCap cls k s = (case s of [] \<Rightarrow> None | c # cs \<Rightarrow> if cls c then starCap cls k [c] cs else None)"

fun fitsShape :: "string \<Rightarrow> string \<Rightarrow> bool" where
  \<comment> \<open>the text begins with the shape: \<open>d\<close> stands for a digit, any other character for itself\<close>
  "fitsShape [] s = True"
| "fitsShape (p # ps) [] = False"
| "fitsShape (p # ps) (c # cs) = ((if p = CHR ''d'' then isDigit c else c = p) \<and> fitsShape ps cs)"

definition shaped :: "string \<Rightarrow> string \<Rightarrow> string option" where
  "shaped shape s = (if fitsShape shape s then Some (take (length shape) s) else None)"

definition isColonOrSpace :: "char \<Rightarrow> bool" where
  \<comment> \<open>\<open>[:\s]\<close>\<close>
  "isColonOrSpace c \<longleftrightarrow> c = CHR '':'' \<or> isSpace c"

definition newline :: char where
  "newline = CHR 0x0A"

definition poNumberAt :: "string \<Rightarrow> string option" where
  \<comment> \<open>\<open>(PO-[A-Z]-\d+)\<close> under the \<open>i\<close> flag, at the end of an expression\<close>
  "poNumberAt s =
     (case ciStrip ''PO-'' s of
        None \<Rightarrow> None
      | Some r \<Rightarrow>
          (case r of
             l # d # ds \<Rightarrow>
               if isLetter l \<and> d = CHR ''-'' \<and> takeWhile isDigit ds \<noteq> []
               then Some (take 3 s @ [l, d] @ takeWhile isDigit ds) else None
           | _ \<Rightarrow> None))"

definition labelled :: "string \<Rightarrow> (char \<Rightarrow> bool) \<Rightarrow> (string \<Rightarrow> string option) \<Rightarrow> string \<Rightarrow> string option" where
  \<comment> \<open>\<open>label cls* (capture)\<close>\<close>
  "labelled label cls capture s =
     (case ciStrip label s of None \<Rightarrow> None | Some r \<Rightarrow> star cls capture r)"

definition bestellnrAt :: "string \<Rightarrow> string option" where
  \<comment> \<open>\<open>/Bestellnr[.:]?\s*(PO-[A-Z]-\d+)/i\<close>\<close>
  "bestellnrAt s =
     (case ciStrip ''Bestellnr'' s of
        None \<Rightarrow> None
      | Some r \<Rightarrow>
          (case r of
             c # cs \<Rightarrow>
               if c = CHR ''.'' \<or> c = CHR '':''
               then (case star isSpace poNumberAt cs of
                       Some v \<Rightarrow> Some v | None \<Rightarrow> star isSpace poNumberAt r)
               else star isSpace poNumberAt r
           | [] \<Rightarrow> star isSpace poNumberAt r))"

definition FIELD_PATTERNS :: "string \<Rightarrow> (string \<Rightarrow> string option) list" where
  \<comment> \<open>\<open>FIELD_PATTERNS[originalField] || []\<close>\<close>
  "FIELD_PATTERNS originalField =
     (if originalField = ''Leistungsdatum''
      then [labelled ''Leistungsdatum'' isColonOrSpace (shaped ''dd.dd.dddd''),
            labelled ''Leistungsdatum'' isColonOrSpace (shaped ''dddd-dd-dd'')]
      else if originalField = ''Rechnungsdatum''
      then [labelled ''Rechnungsdatum'' isColonOrSpace (shaped ''dd.dd.dddd'')]
      else if originalField = ''Bestellnummer''
      then [bestellnrAt,
            labelled ''PO'' (\<lambda>c. isColonOrSpace c \<or> c = CHR ''#'') poNumberAt]
      else [])"

definition restOfLine :: "string \<Rightarrow> string option" where
  \<comment> \<open>\<open>([^\n]+)\<close>\<close>
  "restOfLine s = (case takeWhile (\<lambda>c. c \<noteq> newline) s of [] \<Rightarrow> None | l \<Rightarrow> Some l)"

definition normalizeValue :: "string \<Rightarrow> string \<Rightarrow> string" where
  "normalizeValue v fieldName =
     (if strIncludes (toLowerCase fieldName) ''date''
         \<and> fitsShape ''dd.dd.dddd'' v \<and> length v = 10
      then take 4 (drop 6 v) @ ''-'' @ take 2 (drop 3 v) @ ''-'' @ take 2 v
      else trim v)"

fun firstCapture :: "(string \<Rightarrow> string option) list \<Rightarrow> string \<Rightarrow> string option" where
  \<comment> \<open>the loop over the patterns of a label: the first one with a non-empty capture\<close>
  "firstCapture [] rawText = None"
| "firstCapture (pattern # patterns) rawText =
     (case firstMatch pattern rawText of
        Some (c # cs) \<Rightarrow> Some (c # cs)
      | _ \<Rightarrow> firstCapture patterns rawText)"

definition extractValue :: "string option \<Rightarrow> string \<Rightarrow> string \<Rightarrow> string option" where
  "extractValue rawText originalField normalizedField =
     (case rawText of
        None \<Rightarrow> None
      | Some t \<Rightarrow>
          if t = [] then None
          else (case firstCapture (FIELD_PATTERNS originalField) t of
                  Some v \<Rightarrow> Some (normalizeValue v normalizedField)
                | None \<Rightarrow>
                    (case firstMatch (labelled originalField isColonOrSpace restOfLine) t of
                       Some (c # cs) \<Rightarrow> Some (normalizeValue (trim (c # cs)) normalizedField)
                     | _ \<Rightarrow> None)))"

subsection \<open>Applying memories\<close>

datatype MemoryType = Vendor | Correction | Resolution

definition memoryTypeName :: "MemoryType \<Rightarrow> string" where
  "memoryTypeName t = (case t of Vendor \<Rightarrow> ''vendor'' | Correction \<Rightarrow> ''correction''
     | Resolution \<Rightarrow> ''resolution'')"

record AppliedMemory =
  am_memoryId :: string
  am_memoryType :: MemoryType
  am_fieldName :: string
  am_action :: ThresholdAction
  am_confidence :: real
  am_extractedValue :: "JsValue option"

record ProposedCorrection =
  pc_fieldName :: string
  pc_currentValue :: "JsValue option"
  pc_suggestedValue :: "JsValue option"
  pc_memoryId :: string
  pc_confidence :: real
  pc_reasoning :: string

datatype PatternType = tax_inclusive | skonto | currency_recovery | sku_mapping | po_match

definition patternTypeName :: "PatternType \<Rightarrow> string" where
  "patternTypeName t = (case t of tax_inclusive \<Rightarrow> ''tax_inclusive'' | skonto \<Rightarrow> ''skonto''
     | currency_recovery \<Rightarrow> ''currency_recovery'' | sku_mapping \<Rightarrow> ''sku_mapping''
     | po_match \<Rightarrow> ''po_match'')"

record DetectedPattern =
  dp_type :: PatternType
  dp_details :: "(string \<times> JsValue) list"
  dp_fieldName :: "string option"
  dp_suggestedAction :: "string option"

record AppliedResult =
  normalizedInvoice :: "string \<rightharpoonup> JsValue"
  appliedMemories :: "AppliedMemory list"
  proposedCorrections :: "ProposedCorrection list"

record ApplyResult =
  appliedResult :: AppliedResult
  detectedPatterns :: "DetectedPattern list"
  ar_auditEntry :: AuditEntry

definition dq :: string where
  \<comment> \<open>the double quote\<close>
  "dq = [CHR 0x22]"

definition applyVendorMemory :: "Invoice \<Rightarrow> VendorMemory \<Rightarrow> AppliedResult \<Rightarrow> AppliedResult" where
  \<comment> \<open>one round of the loop over the vendor memories\<close>
  "applyVendorMemory invoice vm st =
     (let action = mapConfidenceToAction (vm_confidence vm);
          current = normalizedInvoice st (vm_normalizedFieldName vm);
          extracted = (if isNullish current
                       then extractValue (inv_rawText invoice) (vm_originalFieldName vm)
                              (vm_normalizedFieldName vm)
                       else None);
          found = (extracted \<noteq> None \<and> extracted \<noteq> Some []);
          st1 = (if found \<and> action = auto_applied
                 then st\<lparr>normalizedInvoice :=
                        (normalizedInvoice st)(vm_normalizedFieldName vm \<mapsto> JStr (the extracted))\<rparr>
                 else if found
                 then st\<lparr>proposedCorrections := proposedCorrections st @
                        [\<lparr>pc_fieldName = vm_normalizedFieldName vm, pc_currentValue = current,
                          pc_suggestedValue = Some (JStr (the extracted)), pc_memoryId = vm_id vm,
                          pc_confidence = vm_confidence vm,
                          pc_reasoning = (if action = flagged then ''[LOW CONFIDENCE] '' else [])
                            @ ''Vendor memory: '' @ dq @ vm_originalFieldName vm @ dq @ '' '' @ arrow
                            @ '' '' @ dq @ vm_normalizedFieldName vm @ dq @ '' extracted '' @ dq
                            @ the extracted @ dq\<rparr>]\<rparr>
                 else st)
      in st1\<lparr>appliedMemories := appliedMemories st1 @
           [\<lparr>am_memoryId = vm_id vm, am_memoryType = Vendor,
             am_fieldName = vm_normalizedFieldName vm, am_action = action,
             am_confidence = vm_confidence vm,
             am_extractedValue = map_option JStr extracted\<rparr>]\<rparr>)"

definition applyCorrectionMemory :: "CorrectionMemory \<Rightarrow> AppliedResult \<Rightarrow> AppliedResult" where
  \<comment> \<open>one round of the loop over the correction memories\<close>
  "applyCorrectionMemory cm st =
     (let action = mapConfidenceToAction (cm_confidence cm);
          st1 = (if action = auto_applied
                 then st\<lparr>normalizedInvoice :=
                        (normalizedInvoice st)(cm_fieldName cm \<mapsto> JStr (cm_correctedValue cm))\<rparr>
                 else if action = suggested
                 then st\<lparr>proposedCorrections := proposedCorrections st @
                        [\<lparr>pc_fieldName = cm_fieldName cm,
                          pc_currentValue = normalizedInvoice st (cm_fieldName cm),
                          pc_suggestedValue = Some (JStr (cm_correctedValue cm)),
                          pc_memoryId = cm_id cm, pc_confidence = cm_confidence cm,
                          pc_reasoning = ''Correction memory suggests '' @ dq
                            @ cm_correctedValue cm @ dq\<rparr>]\<rparr>
                 else st)
      in st1\<lparr>appliedMemories := appliedMemories st1 @
           [\<lparr>am_memoryId = cm_id cm, am_memoryType = Correction, am_fieldName = cm_fieldName cm,
             am_action = action, am_confidence = cm_confidence cm,
             am_extractedValue = Some (JStr (cm_correctedValue cm))\<rparr>]\<rparr>)"

subsection \<open>Pattern detection\<close>

definition currencyCodes :: "string list" where
  "currencyCodes = [''eur'', ''usd'', ''chf'', ''gbp'']"

definition atWordEnd :: "string \<Rightarrow> bool" where
  \<comment> \<open>\<open>\b\<close> after a word character: the text ends or goes on with a non-word character\<close>
  "atWordEnd r = (case r of [] \<Rightarrow> True | c # cs \<Rightarrow> \<not> isWordChar c)"

definition currencyAt :: "string \<Rightarrow> string option" where
  \<comment> \<open>\<open>(eur|usd|chf|gbp)\b\<close> under the \<open>i\<close> flag: the text matched\<close>
  "currencyAt s =
     (if \<exists>code \<in> set currencyCodes.
           case ciStrip code s of None \<Rightarrow> False | Some r \<Rightarrow> atWordEnd r
      then Some (take 3 s) else None)"

fun findCurrency :: "bool \<Rightarrow> string \<Rightarrow> string option" where
  \<comment> \<open>\<open>text.match(/\b(eur|usd|chf|gbp)\b/i)\<close>; the flag tells whether the character before
      the position is a word character\<close>
  "findCurrency prevWord [] = None"
| "findCurrency prevWord (c # cs) =
     (case (if prevWord then None else currencyAt (c # cs)) of
        Some m \<Rightarrow> Some m
      | None \<Rightarrow> findCurrency (isWordChar c) cs)"

definition discountWordAt :: "string list \<Rightarrow> string \<Rightarrow> bool" where
  "discountWordAt ws s \<longleftrightarrow> (\<exists>w \<in> set ws. ciStrip w s \<noteq> None)"

definition percentThen :: "string list \<Rightarrow> 'a \<Rightarrow> string \<Rightarrow> 'a option" where
  \<comment> \<open>\<open>%\s*(w1|w2|...)\<close>, giving \<open>v\<close> on a match\<close>
  "percentThen ws v s =
     (case s of
        c # cs \<Rightarrow> if c = CHR ''%''
                  then star isSpace (\<lambda>r. if discountWordAt ws r then Some v else None) cs
                  else None
      | [] \<Rightarrow> None)"

definition skontoTestAt :: "string \<Rightarrow> unit option" where
  \<comment> \<open>\<open>/\d+%\s*(bei|within|innerhalb)/i\<close>\<close>
  "skontoTestAt s =
     plusCap isDigit (\<lambda>ds. percentThen [''bei'', ''within'', ''innerhalb''] ()) s"

definition skontoPercentAt :: "string \<Rightarrow> string option" where
  \<comment> \<open>\<open>/(\d+(?:[.,]\d+)?)\s*%\s*(?:skonto|bei|within|innerhalb)/i\<close>: the first group\<close>
  "skontoPercentAt s =
     (let tail = (\<lambda>num. star isSpace
                    (percentThen [''skonto'', ''bei'', ''within'', ''innerhalb''] num))
      in plusCap isDigit
           (\<lambda>ds r.
              case (case r of
                      c # cs \<Rightarrow> if c = CHR ''.'' \<or> c = CHR '',''
                                then plusCap isDigit (\<lambda>fs. tail (ds @ [c] @ fs)) cs
                                else None
                    | [] \<Rightarrow> None) of
                Some v \<Rightarrow> Some v
              | None \<Rightarrow> tail ds r)
           s)"

definition detectCurrency ::
  "string \<Rightarrow> DetectedPattern list \<times> (string \<rightharpoonup> JsValue) \<Rightarrow> DetectedPattern list \<times> (string \<rightharpoonup> JsValue)" where
  \<comment> \<open>the block \<open>currency recovery\<close> of \<open>detectPatterns\<close>\<close>
  "detectCurrency text st =
     (case st of (patterns, normalized) \<Rightarrow>
        if \<not> truthy (normalized ''currency'')
        then (case findCurrency False text of
                Some (c # cs) \<Rightarrow>
                  (let currency = toUpperCase (c # cs)
                   in (patterns @ [\<lparr>dp_type = currency_recovery,
                         dp_details = [(''recovered'', JStr currency)],
                         dp_fieldName = Some ''currency'',
                         dp_suggestedAction = Some (''Recovered currency '' @ currency)\<rparr>],
                       normalized(''currency'' \<mapsto> JStr currency)))
              | _ \<Rightarrow> (patterns, normalized))
        else (patterns, normalized))"

definition detectSkonto ::
  "string \<Rightarrow> DetectedPattern list \<times> (string \<rightharpoonup> JsValue) \<Rightarrow> DetectedPattern list \<times> (string \<rightharpoonup> JsValue)" where
  \<comment> \<open>the block \<open>skonto detection\<close>\<close>
  "detectSkonto text st =
     (case st of (patterns, normalized) \<Rightarrow>
        if strIncludes text ''skonto'' \<or> firstMatch skontoTestAt text \<noteq> None
        then (let m = (case firstMatch skontoPercentAt text of
                         Some (c # cs) \<Rightarrow> Some (c # cs) | _ \<Rightarrow> None)
              in (patterns @ [\<lparr>dp_type = skonto,
                    dp_details = [(''percentage'', JStr (orElse m ''unknown''))],
                    dp_fieldName = None,
                    dp_suggestedAction =
                      Some (''Skonto terms detected: '' @ orElse m ''?'' @ ''%'')\<rparr>],
                  normalized))
        else (patterns, normalized))"

definition detectSku ::
  "string \<Rightarrow> DetectedPattern list \<times> (string \<rightharpoonup> JsValue) \<Rightarrow> DetectedPattern list \<times> (string \<rightharpoonup> JsValue)" where
  \<comment> \<open>the block \<open>SKU mapping\<close>: \<open>/seefracht|shipping|freight/i.test(text)\<close>\<close>
  "detectSku text st =
     (case st of (patterns, normalized) \<Rightarrow>
        if firstMatch (\<lambda>s. if discountWordAt [''seefracht'', ''shipping'', ''freight''] s
                            then Some () else None) text \<noteq> None
        then (patterns @ [\<lparr>dp_type = sku_mapping,
                dp_details = [(''suggestedSku'', JStr ''FREIGHT'')],
                dp_fieldName = Some ''sku'',
                dp_suggestedAction =
                  Some (''SKU mapping: Seefracht/Shipping '' @ arrow @ '' FREIGHT'')\<rparr>],
              normalized)
        else (patterns, normalized))"

definition detectTax ::
  "string \<Rightarrow> DetectedPattern list \<times> (string \<rightharpoonup> JsValue) \<Rightarrow> DetectedPattern list \<times> (string \<rightharpoonup> JsValue)" where
  \<comment> \<open>the block \<open>tax inclusive\<close>: \<open>/incl\. vat|mwst\. inkl|inkl\. mwst/.test(text)\<close>\<close>
  "detectTax text st =
     (case st of (patterns, normalized) \<Rightarrow>
        if strIncludes text ''incl. vat'' \<or> strIncludes text ''mwst. inkl''
           \<or> strIncludes text ''inkl. mwst''
        then (patterns @ [\<lparr>dp_type = tax_inclusive,
                dp_details = [(''textIndicator'', JBool True)],
                dp_fieldName = None,
                dp_suggestedAction = Some ''Tax inclusive indicator found - verify amounts''\<rparr>],
              normalized)
        else (patterns, normalized))"

definition detectPatterns ::
  "Invoice \<Rightarrow> DetectedPattern list \<times> (string \<rightharpoonup> JsValue) \<Rightarrow> DetectedPattern list \<times> (string \<rightharpoonup> JsValue)" where
  \<comment> \<open>the four blocks in the order of the source, on the lower-cased raw text\<close>
  "detectPatterns invoice st =
     (let text = (case inv_rawText invoice of None \<Rightarrow> [] | Some t \<Rightarrow> toLowerCase t)
      in detectTax text (detectSku text (detectSkonto text (detectCurrency text st))))"

definition afterVendorMemories :: "Invoice \<Rightarrow> RecalledMemories \<Rightarrow> AppliedResult" where
  \<comment> \<open>the record, the traces and the proposed corrections after the loop over the
      recalled vendor memories\<close>
  "afterVendorMemories invoice memories =
     fold (applyVendorMemory invoice) (vendorMemories memories)
       \<lparr>normalizedInvoice = map_of (map (\<lambda>(k, v). (k, if_value v)) (inv_fields invoice)),
        appliedMemories = [], proposedCorrections = []\<rparr>"

definition afterMemories :: "Invoice \<Rightarrow> RecalledMemories \<Rightarrow> AppliedResult" where
  \<comment> \<open>the same after the two loops over the recalled memories\<close>
  "afterMemories invoice memories =
     fold applyCorrectionMemory (correctionMemories memories)
       (afterVendorMemories invoice memories)"

definition applyMemories :: "int \<Rightarrow> Invoice \<Rightarrow> RecalledMemories \<Rightarrow> ApplyResult" where
  \<comment> \<open>\<open>now\<close> is the instant the clock gives\<close>
  "applyMemories now invoice memories =
     (let st = afterMemories invoice memories
      in (case detectPatterns invoice ([], normalizedInvoice st) of
            (patterns, normalized) \<Rightarrow>
              \<lparr>appliedResult = st\<lparr>normalizedInvoice := normalized\<rparr>,
               detectedPatterns = patterns,
               ar_auditEntry = \<lparr>ae_step = StepApply, ae_timestamp = now,
                 ae_details = ''Applied '' @ showNat (length (appliedMemories st))
                   @ '' memories, '' @ showNat (length (proposedCorrections st))
                   @ '' corrections proposed''
                   @ (if patterns = [] then []
                      else '', patterns: ''
                           @ join '', '' (map (\<lambda>p. patternTypeName (dp_type p)) patterns))\<rparr>\<rparr>))"

section \<open>Decision stage (services/decision.ts, src/unnamed/part\_003)\<close>

record DuplicateWarning =
  potentialDuplicateIds :: "string list"
  matchedFields :: "string list"

record Decision =
  requiresHumanReview :: bool
  overallConfidence :: real
  reasoning :: string
  flaggedFields :: "string list"
  duplicateWarning :: "DuplicateWarning option"

record DecisionResult =
  decision :: Decision
  dr_auditEntry :: AuditEntry

definition checkForDuplicates :: "Repository \<Rightarrow> Invoice \<Rightarrow> DuplicateWarning option" where
  "checkForDuplicates repo invoice =
     (let ids = filter (\<lambda>i. i \<noteq> inv_id invoice)
                  (findPotentialDuplicates repo (normalizeVendorName (inv_vendorId invoice))
                     (inv_invoiceNumber invoice) (inv_invoiceDate invoice))
      in if ids \<noteq> []
         then Some \<lparr>potentialDuplicateIds = ids,
                    matchedFields = [''vendorId'', ''invoiceNumber'', ''invoiceDate'']\<rparr>
         else None)"

definition memConfStep :: "AppliedMemory \<Rightarrow> (string \<rightharpoonup> real) \<Rightarrow> (string \<rightharpoonup> real)" where
  \<comment> \<open>one round of the first loop of \<open>calcOverallConfidence\<close>; \<open>!existing\<close> holds for a
      missing entry and for the number 0\<close>
  "memConfStep m mp =
     (case mp (am_fieldName m) of
        None \<Rightarrow> mp(am_fieldName m \<mapsto> am_confidence m)
      | Some existing \<Rightarrow>
          if existing = 0 \<or> am_confidence m > existing
          then mp(am_fieldName m \<mapsto> am_confidence m) else mp)"

definition memConfMap :: "AppliedMemory list \<Rightarrow> (string \<rightharpoonup> real)" where
  "memConfMap memories = fold memConfStep memories Map.empty"

definition calcOverallConfidence :: "Invoice \<Rightarrow> AppliedMemory list \<Rightarrow> real" where
  "calcOverallConfidence invoice memories =
     (let confs = map (\<lambda>(name, field).
                         case memConfMap memories name of
                           Some memConf \<Rightarrow> memConf * min (if_extractionConfidence field) 1
                         | None \<Rightarrow> min (if_extractionConfidence field)
                                     (suggestionThreshold - 0.01))
                    (inv_fields invoice)
      in if confs \<noteq> []
         then max 0 (min 1 (foldl (+) 0 confs / real (length confs)))
         else 0)"

definition sweepMemory :: "AppliedMemory \<Rightarrow> nat \<times> bool \<times> string list \<Rightarrow> nat \<times> bool \<times> string list" where
  \<comment> \<open>one round of the loop over the applied memories: the count of high-confidence
      memories, the review flag and the flagged fields\<close>
  "sweepMemory mem st =
     (case st of (highConfCount, review, fs) \<Rightarrow>
        if am_confidence mem \<ge> autoApplyThreshold then (highConfCount + 1, review, fs)
        else if am_confidence mem < suggestionThreshold \<and> am_fieldName mem \<notin> set fs
        then (highConfCount, True, fs @ [am_fieldName mem])
        else (highConfCount, review, fs))"

definition makeDecision ::
  "int \<Rightarrow> Repository \<Rightarrow> AppliedResult \<Rightarrow> Invoice \<Rightarrow> DetectedPattern list \<Rightarrow> DecisionResult" where
  \<comment> \<open>\<open>now\<close> is the instant the clock gives\<close>
  "makeDecision now repo applied invoice patterns =
     (let \<comment> \<open>duplicate detection\<close>
          dup = checkForDuplicates repo invoice;
          review1 = (dup \<noteq> None);
          reasons1 = (case dup of
                        None \<Rightarrow> []
                      | Some w \<Rightarrow> [''Potential duplicate: '' @ join '', '' (potentialDuplicateIds w)]);
          \<comment> \<open>low confidence fields\<close>
          flagged2 = map fst (filter (\<lambda>(name, field). if_extractionConfidence field < 0.6)
                                (inv_fields invoice));
          review2 = (review1 \<or> flagged2 \<noteq> []);
          reasons2 = reasons1 @ (if flagged2 \<noteq> []
                                 then [''Low extraction confidence: '' @ join '', '' flagged2]
                                 else []);
          \<comment> \<open>unmatched fields\<close>
          unmatched = filter (\<lambda>f. f \<notin> set (map am_fieldName (appliedMemories applied)))
                        (map fst (inv_fields invoice));
          review3 = (review2 \<or> unmatched \<noteq> []);
          flagged3 = fold (\<lambda>f fs. if f \<in> set fs then fs else fs @ [f]) unmatched flagged2;
          reasons3 = reasons2 @ (if unmatched \<noteq> []
                                 then [''No memory match: '' @ join '', '' unmatched] else []);
          \<comment> \<open>low confidence memories\<close>
          swept = fold sweepMemory (appliedMemories applied) (0, review3, flagged3);
          highConfCount = fst swept;
          review4 = fst (snd swept);
          flagged4 = snd (snd swept);
          \<comment> \<open>proposed corrections\<close>
          review5 = (review4 \<or> proposedCorrections applied \<noteq> []);
          reasons5 = reasons3 @ (if proposedCorrections applied \<noteq> []
                                 then [showNat (length (proposedCorrections applied))
                                       @ '' proposed correction(s)'']
                                 else []);
          \<comment> \<open>detected patterns\<close>
          reasons6 = reasons5 @ concat (map (\<lambda>p. case dp_suggestedAction p of
                                                   None \<Rightarrow> []
                                                 | Some a \<Rightarrow> if a \<noteq> [] then [a] else [])
                                          patterns);
          review6 = (review5 \<or> (\<exists>p \<in> set patterns. dp_type p = tax_inclusive));
          overall = calcOverallConfidence invoice (appliedMemories applied);
          totalFields = length (inv_fields invoice);
          \<comment> \<open>final decision summary\<close>
          reasons7 = (if \<not> review6 \<and> highConfCount = totalFields \<and> totalFields > 0
                      then ''All fields high confidence. Auto-accept recommended.'' # reasons6
                      else if review6 then ''Human review required.'' # reasons6
                      else reasons6)
      in \<lparr>decision = \<lparr>requiresHumanReview = review6, overallConfidence = overall,
             reasoning = join '' '' reasons7, flaggedFields = dedup flagged4,
             duplicateWarning = dup\<rparr>,
          dr_auditEntry = \<lparr>ae_step = StepDecide, ae_timestamp = now,
            ae_details = ''Invoice '' @ inv_id invoice @ '': ''
              @ (if review6 then ''REVIEW'' else ''AUTO'') @ '', conf='' @ toFixed 2 overall\<rparr>\<rparr>)"

section \<open>Purchase-order matching (POMatchingService, src/unnamed/part\_000)\<close>

text \<open>
  The score of an order is accumulated in exact reals. The source adds doubles and rounds
  every sum, so two scores that are equal here can differ in the last bit there (0.7 + 0.1
  and 0.5 + 0.3 are such a pair): the order that wins between two candidates whose exact
  scores are equal is outside what this model tells.
\<close>

record POLineItem =
  poli_sku :: string
  poli_qty :: real
  poli_unitPrice :: real

record PurchaseOrder =
  po_poNumber :: string
  po_vendor :: string
  po_date :: int
  po_lineItems :: "POLineItem list"

record POMatchResult =
  matchedPO :: "PurchaseOrder option"
  pm_confidence :: real
  matchReasons :: "string list"

definition invoiceLineItems :: "Invoice \<Rightarrow> LineItem list option" where
  \<comment> \<open>\<open>invoice.fields['lineItems']?.value\<close>, read at the type the source casts it to: a
      list of line items, or nothing\<close>
  "invoiceLineItems invoice =
     (case map_of (inv_fields invoice) ''lineItems'' of
        None \<Rightarrow> None
      | Some f \<Rightarrow> (case if_value f of JItems xs \<Rightarrow> Some xs | _ \<Rightarrow> None))"

definition roundHalfUp :: "real \<Rightarrow> int" where
  \<comment> \<open>\<open>Math.round\<close>\<close>
  "roundHalfUp x = \<lfloor>x + 1 / 2\<rfloor>"

definition qtyStep :: "PurchaseOrder \<Rightarrow> LineItem \<Rightarrow> real \<times> string list \<Rightarrow> real \<times> string list" where
  \<comment> \<open>one round of the loop over the invoice line items\<close>
  "qtyStep po item st =
     (case st of (score, r) \<Rightarrow>
        (case find (\<lambda>p. Some (poli_sku p) = li_sku item) (po_lineItems po) of
           Some poItem \<Rightarrow>
             if poli_qty poItem = li_qty item
             then (score + 0.1,
                   r @ [''Qty match: '' @ (case li_sku item of None \<Rightarrow> ''null'' | Some s \<Rightarrow> s)])
             else (score, r)
         | None \<Rightarrow> (score, r)))"

definition dateStep :: "Invoice \<Rightarrow> PurchaseOrder \<Rightarrow> real \<times> string list" where
  \<comment> \<open>the score and the reasons after the vendor and the date were looked at\<close>
  "dateStep invoice po =
     (let days = \<bar>real_of_int (inv_invoiceDate invoice - po_date po)\<bar> / 86400000
      in if days \<le> 30
         then (0.3 + 0.2 * (1 - days / 30),
               [''Vendor match'', ''Date within '' @ showInt (roundHalfUp days) @ '' days''])
         else (0.3, [''Vendor match'']))"

definition skuStep :: "PurchaseOrder \<Rightarrow> LineItem list \<Rightarrow> real \<times> string list \<Rightarrow> real \<times> string list" where
  \<comment> \<open>the comparison of the two sets of codes\<close>
  "skuStep po items st =
     (let invSkus = dedup (filter (\<lambda>s. s \<noteq> [])
                      (concat (map (\<lambda>i. case li_sku i of None \<Rightarrow> [] | Some s \<Rightarrow> [s]) items)));
          poSkus = dedup (map poli_sku (po_lineItems po));
          matched = filter (\<lambda>s. s \<in> set poSkus) invSkus
      in if matched \<noteq> []
         then (fst st + 0.3 * real (length matched)
                 / real (max (length invSkus) (length poSkus)),
               snd st @ [''SKU: '' @ join '', '' matched])
         else st)"

definition scorePO :: "Invoice \<Rightarrow> LineItem list option \<Rightarrow> PurchaseOrder \<Rightarrow> real \<times> string list" where
  \<comment> \<open>the body of the loop over the orders, for an order of the invoice's vendor: the
      score and the reasons\<close>
  "scorePO invoice lineItems po =
     (case lineItems of
        None \<Rightarrow> dateStep invoice po
      | Some [] \<Rightarrow> dateStep invoice po
      | Some items \<Rightarrow> fold (qtyStep po) items (skuStep po items (dateStep invoice po)))"

definition considerPO ::
  "Invoice \<Rightarrow> LineItem list option \<Rightarrow> string \<Rightarrow> PurchaseOrder
     \<Rightarrow> PurchaseOrder option \<times> real \<times> string list
     \<Rightarrow> PurchaseOrder option \<times> real \<times> string list" where
  \<comment> \<open>one round of the loop over the orders: the best order so far, its score and the
      reasons\<close>
  "considerPO invoice lineItems vendor po st =
     (case st of (best, bestScore, reasons) \<Rightarrow>
        if trim (toLowerCase (po_vendor po)) \<noteq> vendor then st
        else (case scorePO invoice lineItems po of
                (score, r) \<Rightarrow> if score > bestScore then (Some po, score, r) else st))"

definition findMatchingPO :: "PurchaseOrder list \<Rightarrow> Invoice \<Rightarrow> POMatchResult" where
  \<comment> \<open>\<open>orders\<close> is the list the service holds\<close>
  "findMatchingPO orders invoice =
     (let vendor = trim (toLowerCase (inv_vendorId invoice));
          lineItems = invoiceLineItems invoice
      in case fold (considerPO invoice lineItems vendor) orders (None, 0, []) of
           (best, bestScore, reasons) \<Rightarrow>
             \<lparr>matchedPO = best, pm_confidence = min bestScore 1, matchReasons = reasons\<rparr>)"

section \<open>Learn stage (services/learn.ts, in src/test/fixtures/index.ts)\<close>

record ContributingMemory =
  cb_memoryId :: string
  cb_memoryType :: MemoryType
  cb_fieldName :: string
  cb_extractedValue :: "JsValue option"

record LearningResult =
  createdMemories :: "string list"
  updatedMemories :: "string list"
  deactivatedMemories :: "string list"
  lr_auditEntries :: "AuditEntry list"

datatype UpdateAction = reinforce | penalize | contradict

definition updateActionName :: "UpdateAction \<Rightarrow> string" where
  "updateActionName a = (case a of reinforce \<Rightarrow> ''reinforce'' | penalize \<Rightarrow> ''penalize''
     | contradict \<Rightarrow> ''contradict'')"

definition findExisting :: "Repository \<Rightarrow> ContributingMemory \<Rightarrow> (real \<times> nat \<times> bool \<times> nat) option" where
  \<comment> \<open>the stored memory a contribution names, of either kind: its confidence, consecutive
      rejections, active flag and application count\<close>
  "findExisting repo mem =
     (if cb_memoryType mem = Vendor
      then map_option (\<lambda>m. (vm_confidence m, vm_consecutiveRejections m, vm_isActive m,
                              vm_applicationCount m))
             (findVendorMemoryById repo (cb_memoryId mem))
      else map_option (\<lambda>m. (cm_confidence m, cm_consecutiveRejections m, cm_isActive m,
                              cm_applicationCount m))
             (findCorrectionMemoryById repo (cb_memoryId mem)))"

definition updateMemory ::
  "int \<Rightarrow> ContributingMemory \<Rightarrow> UpdateAction \<Rightarrow> Repository \<times> LearningResult
     \<Rightarrow> Repository \<times> LearningResult" where
  \<comment> \<open>\<open>now\<close> is the instant the clock gives\<close>
  "updateMemory now mem action st =
     (case st of (repo, result) \<Rightarrow>
        (case findExisting repo mem of
           None \<Rightarrow> (repo, result)
         | Some (confidence, consecutiveRejections, isActive, applicationCount) \<Rightarrow>
             (let newConf = (case action of
                               reinforce \<Rightarrow> applyReinforcement confidence
                             | penalize \<Rightarrow> applyPenalty confidence
                             | contradict \<Rightarrow> confidence * 0.5);
                  rejections = (case action of
                                  reinforce \<Rightarrow> 0
                                | penalize \<Rightarrow> consecutiveRejections + 1
                                | contradict \<Rightarrow> consecutiveRejections);
                  active = (if action = penalize
                               \<and> rejections \<ge> maxConsecutiveRejectionsBeforeDeactivation
                            then False else isActive);
                  update = \<lparr>u_confidence = Some newConf,
                     u_applicationCount =
                       (if action = reinforce then Some (applicationCount + 1) else None),
                     u_consecutiveRejections = Some rejections, u_lastUsedAt = Some now,
                     u_isActive = Some active, u_correctedValue = None\<rparr>;
                  repo1 = (if cb_memoryType mem = Vendor
                           then updateVendorMemory repo (cb_memoryId mem) update
                           else updateCorrectionMemory repo (cb_memoryId mem) update)
              in if \<not> active
                 then (repo1, result\<lparr>deactivatedMemories := deactivatedMemories result @
                         [memoryTypeName (cb_memoryType mem) @ '' '' @ cb_memoryId mem
                          @ '' deactivated'']\<rparr>)
                 else (repo1, result\<lparr>updatedMemories := updatedMemories result @
                         [memoryTypeName (cb_memoryType mem) @ '' '' @ cb_memoryId mem @ '' ''
                          @ updateActionName action @ ''d: '' @ toFixed 2 confidence @ arrow
                          @ toFixed 2 newConf]\<rparr>))))"

definition getMemorySuggestedValue :: "Repository \<Rightarrow> ContributingMemory \<Rightarrow> JsValue" where
  "getMemorySuggestedValue repo mem =
     (case cb_extractedValue mem of
        Some v \<Rightarrow> v
      | None \<Rightarrow>
          if cb_memoryType mem = Correction
          then (case findCorrectionMemoryById repo (cb_memoryId mem) of
                  Some corrMem \<Rightarrow> JStr (cm_correctedValue corrMem)
                | None \<Rightarrow> JNull)
          else JNull)"

definition learnMapping ::
  "(nat \<Rightarrow> string) \<Rightarrow> int \<Rightarrow> string \<Rightarrow> FieldCorrection \<Rightarrow> Invoice \<Rightarrow> string
     \<Rightarrow> Repository \<times> LearningResult \<Rightarrow> error + Repository \<times> LearningResult" where
  \<comment> \<open>the branch \<open>isMapping\<close> of \<open>createMemory\<close>, for the original label \<open>label\<close>\<close>
  "learnMapping uuid now label corr invoice vendorId st =
     (case st of (repo, result) \<Rightarrow>
        (case find (\<lambda>m. vm_originalFieldName m = label
                         \<and> vm_normalizedFieldName m = fc_fieldName corr)
                (findVendorMemories repo vendorId) of
           Some existing \<Rightarrow>
             (let newConf = applyReinforcement (vm_confidence existing)
              in Inr (updateVendorMemory repo (vm_id existing)
                        (noUpdate\<lparr>u_confidence := Some newConf,
                           u_applicationCount := Some (vm_applicationCount existing + 1),
                           u_consecutiveRejections := Some 0,
                           u_lastUsedAt := Some now\<rparr>),
                      result\<lparr>updatedMemories := updatedMemories result @
                        [''vendor '' @ vm_id existing @ '' reinforced: ''
                         @ toFixed 2 (vm_confidence existing) @ arrow @ toFixed 2 newConf]\<rparr>))
         | None \<Rightarrow>
             (let newId = uuid (length (createdMemories result))
              in case saveVendorMemory repo
                        \<lparr>vm_id = newId, vm_vendorId = vendorId,
                         vm_vendorName = inv_vendorName invoice,
                         vm_originalFieldName = label,
                         vm_normalizedFieldName = fc_fieldName corr,
                         vm_confidence = initialHumanCorrectionConfidence,
                         vm_applicationCount = 0, vm_consecutiveRejections = 0,
                         vm_createdAt = now, vm_lastUsedAt = now, vm_isActive = True\<rparr> of
                   Inl e \<Rightarrow> Inl e
                 | Inr repo1 \<Rightarrow>
                     Inr (repo1, result\<lparr>createdMemories := createdMemories result @
                            [''vendor '' @ newId @ '': '' @ dq @ label @ dq @ arrow
                             @ dq @ fc_fieldName corr @ dq]\<rparr>))))"

definition learnValue ::
  "(real \<Rightarrow> string) \<Rightarrow> (nat \<Rightarrow> string) \<Rightarrow> int \<Rightarrow> FieldCorrection \<Rightarrow> string
     \<Rightarrow> Repository \<times> LearningResult \<Rightarrow> error + Repository \<times> LearningResult" where
  \<comment> \<open>the other branch of \<open>createMemory\<close>: a new correction memory\<close>
  "learnValue num uuid now corr vendorId st =
     (case st of (repo, result) \<Rightarrow>
        (let newId = uuid (length (createdMemories result))
         in case saveCorrectionMemory repo
                   \<lparr>cm_id = newId, cm_vendorId = Some vendorId,
                    cm_fieldName = fc_fieldName corr,
                    cm_originalValuePattern =
                      (if isNullish (fc_originalValue corr) then ''*''
                       else String num (fc_originalValue corr)),
                    cm_correctedValue = String num (fc_correctedValue corr),
                    cm_confidence = initialHumanCorrectionConfidence,
                    cm_applicationCount = 0, cm_consecutiveRejections = 0,
                    cm_createdAt = now, cm_lastUsedAt = now, cm_isActive = True\<rparr> of
              Inl e \<Rightarrow> Inl e
            | Inr repo1 \<Rightarrow>
                Inr (repo1, result\<lparr>createdMemories := createdMemories result @
                       [''correction '' @ newId @ '': '' @ dq @ fc_fieldName corr @ dq
                        @ '' '' @ dq @ String num (fc_originalValue corr) @ dq @ arrow
                        @ dq @ String num (fc_correctedValue corr) @ dq]\<rparr>)))"

definition createMemory ::
  "(real \<Rightarrow> string) \<Rightarrow> (nat \<Rightarrow> string) \<Rightarrow> int \<Rightarrow> FieldCorrection \<Rightarrow> Invoice \<Rightarrow> string
     \<Rightarrow> Repository \<times> LearningResult \<Rightarrow> error + Repository \<times> LearningResult" where
  \<comment> \<open>\<open>num\<close> renders a number as text, \<open>uuid\<close> gives the identifiers of \<open>uuidv4\<close> (one for
      each memory created in a call of \<open>learnFromFeedback\<close>), \<open>now\<close> is the instant the
      clock gives\<close>
  "createMemory num uuid now corr invoice vendorId st =
     (case (case map_of (inv_fields invoice) (fc_fieldName corr) of
              None \<Rightarrow> None | Some field \<Rightarrow> if_originalLabel field) of
        Some (c # cs) \<Rightarrow>
          if c # cs \<noteq> fc_fieldName corr
          then learnMapping uuid now (c # cs) corr invoice vendorId st
          else learnValue num uuid now corr vendorId st
      | _ \<Rightarrow> learnValue num uuid now corr vendorId st)"

definition learnCorrection ::
  "(real \<Rightarrow> string) \<Rightarrow> (nat \<Rightarrow> string) \<Rightarrow> int \<Rightarrow> ContributingMemory list \<Rightarrow> Invoice
     \<Rightarrow> string \<Rightarrow> FieldCorrection \<Rightarrow> Repository \<times> LearningResult
     \<Rightarrow> error + Repository \<times> LearningResult" where
  \<comment> \<open>one round of the loop over the corrections of a \<open>correct\<close> feedback\<close>
  "learnCorrection num uuid now contributing invoice vendorId corr st =
     (case find (\<lambda>m. cb_fieldName m = fc_fieldName corr) contributing of
        Some contributingMem \<Rightarrow>
          (let memoryValue = getMemorySuggestedValue (fst st) contributingMem
           in if memoryValue \<noteq> JNull
                 \<and> String num (Some memoryValue) = String num (fc_correctedValue corr)
              then Inr (updateMemory now contributingMem reinforce st)
              else createMemory num uuid now corr invoice vendorId
                     (updateMemory now contributingMem contradict st))
      | None \<Rightarrow> createMemory num uuid now corr invoice vendorId st)"

fun learnCorrections ::
  "(real \<Rightarrow> string) \<Rightarrow> (nat \<Rightarrow> string) \<Rightarrow> int \<Rightarrow> ContributingMemory list \<Rightarrow> Invoice
     \<Rightarrow> string \<Rightarrow> FieldCorrection list \<Rightarrow> Repository \<times> LearningResult
     \<Rightarrow> error + Repository \<times> LearningResult" where
  \<comment> \<open>the loop over the corrections; an error ends it\<close>
  "learnCorrections num uuid now contributing invoice vendorId [] st = Inr st"
| "learnCorrections num uuid now contributing invoice vendorId (corr # corrs) st =
     (case learnCorrection num uuid now contributing invoice vendorId corr st of
        Inl e \<Rightarrow> Inl e
      | Inr st1 \<Rightarrow> learnCorrections num uuid now contributing invoice vendorId corrs st1)"

record LearnService =
  \<comment> \<open>the state of the service: the store and the contributions registered for each
      invoice id\<close>
  repository :: Repository
  contributingMemories :: "string \<rightharpoonup> ContributingMemory list"

definition registerContributingMemories ::
  "string \<Rightarrow> ContributingMemory list \<Rightarrow> LearnService \<Rightarrow> LearnService" where
  "registerContributingMemories invoiceId memories svc =
     svc\<lparr>contributingMemories := (contributingMemories svc)(invoiceId \<mapsto> memories)\<rparr>"

definition learnFromFeedback ::
  "(real \<Rightarrow> string) \<Rightarrow> (nat \<Rightarrow> string) \<Rightarrow> int \<Rightarrow> HumanFeedback \<Rightarrow> Invoice \<Rightarrow> LearnService
     \<Rightarrow> error + LearningResult \<times> LearnService" where
  \<comment> \<open>an error of the store ends the call, as the exception does: no result is returned\<close>
  "learnFromFeedback num uuid now feedback invoice svc =
     (let result0 = \<lparr>createdMemories = [], updatedMemories = [], deactivatedMemories = [],
                      lr_auditEntries = []\<rparr>;
          contributing = orElse (contributingMemories svc (inv_id invoice)) [];
          st0 = (repository svc, result0);
          learned =
            (case hf_action feedback of
               approve \<Rightarrow> Inr (fold (\<lambda>m. updateMemory now m reinforce) contributing st0)
             | reject \<Rightarrow> Inr (fold (\<lambda>m. updateMemory now m penalize) contributing st0)
             | correct \<Rightarrow>
                 (case hf_corrections feedback of
                    None \<Rightarrow> Inr st0
                  | Some corrections \<Rightarrow>
                      learnCorrections num uuid now contributing invoice
                        (normalizeVendorName (inv_vendorId invoice)) corrections st0))
      in case learned of
           Inl e \<Rightarrow> Inl e
         | Inr (repo, result) \<Rightarrow>
             (let auditEntry = \<lparr>ae_step = StepLearn, ae_timestamp = now,
                    ae_details = (case hf_action feedback of approve \<Rightarrow> ''approve''
                                  | reject \<Rightarrow> ''reject'' | correct \<Rightarrow> ''correct'')
                      @ '' on '' @ inv_id invoice @ '': +''
                      @ showNat (length (createdMemories result)) @ '' ~''
                      @ showNat (length (updatedMemories result)) @ '' -''
                      @ showNat (length (deactivatedMemories result))\<rparr>
              in Inr (result\<lparr>lr_auditEntries := lr_auditEntries result @ [auditEntry]\<rparr>,
                      svc\<lparr>repository :=
                            saveAuditEntry repo
                              \<lparr>sa_invoiceId = inv_id invoice, sa_entry = auditEntry\<rparr>,
                          contributingMemories :=
                            (contributingMemories svc)(inv_id invoice := None)\<rparr>)))"

section \<open>Notions of the specification\<close>

definition currencyTokenFrom :: "bool \<Rightarrow> string \<Rightarrow> nat \<Rightarrow> bool" where
  \<comment> \<open>at position \<open>i\<close> the text has one of the currency codes EUR, USD, CHF, GBP in any
      letter case, neither preceded nor followed by a word character; the flag tells
      whether a word character stands before the text\<close>
  "currencyTokenFrom prevWord text i \<longleftrightarrow>
     i + 3 \<le> length text
     \<and> toLowerCase (take 3 (drop i text)) \<in> set currencyCodes
     \<and> (if i = 0 then \<not> prevWord else \<not> isWordChar (text ! (i - 1)))
     \<and> (i + 3 = length text \<or> \<not> isWordChar (text ! (i + 3)))"

definition currencyTokenAt :: "string \<Rightarrow> nat \<Rightarrow> bool" where
  \<comment> \<open>a currency code token of the text starts at position \<open>i\<close>\<close>
  "currencyTokenAt text i \<longleftrightarrow> currencyTokenFrom False text i"

definition lastAutoApplied :: "CorrectionMemory list \<Rightarrow> string \<Rightarrow> CorrectionMemory option" where
  \<comment> \<open>the last memory of the list that is for the field and whose action is auto\_applied\<close>
  "lastAutoApplied cms field =
     find (\<lambda>cm. cm_fieldName cm = field
                \<and> mapConfidenceToAction (cm_confidence cm) = auto_applied) (rev cms)"

definition correctedRecord ::
  "(string \<rightharpoonup> JsValue) \<Rightarrow> CorrectionMemory list \<Rightarrow> (string \<rightharpoonup> JsValue)" where
  \<comment> \<open>the record with every field that has an auto-applied memory overwritten by the
      corrected value of the last such memory\<close>
  "correctedRecord record cms field =
     (case lastAutoApplied cms field of
        Some cm \<Rightarrow> Some (JStr (cm_correctedValue cm))
      | None \<Rightarrow> record field)"

definition correctionTrace :: "CorrectionMemory \<Rightarrow> AppliedMemory" where
  \<comment> \<open>the trace entry of a correction memory\<close>
  "correctionTrace cm =
     \<lparr>am_memoryId = cm_id cm, am_memoryType = Correction, am_fieldName = cm_fieldName cm,
      am_action = mapConfidenceToAction (cm_confidence cm), am_confidence = cm_confidence cm,
      am_extractedValue = Some (JStr (cm_correctedValue cm))\<rparr>"

definition correctionProposal ::
  "(string \<rightharpoonup> JsValue) \<Rightarrow> CorrectionMemory \<Rightarrow> ProposedCorrection" where
  \<comment> \<open>the correction a memory proposes for its field when the record is as given\<close>
  "correctionProposal record cm =
     \<lparr>pc_fieldName = cm_fieldName cm, pc_currentValue = record (cm_fieldName cm),
      pc_suggestedValue = Some (JStr (cm_correctedValue cm)), pc_memoryId = cm_id cm,
      pc_confidence = cm_confidence cm,
      pc_reasoning = ''Correction memory suggests '' @ dq @ cm_correctedValue cm @ dq\<rparr>"

definition suggestedPositions :: "CorrectionMemory list \<Rightarrow> nat list" where
  \<comment> \<open>the positions of the list that hold a memory whose action is suggested\<close>
  "suggestedPositions cms =
     filter (\<lambda>k. mapConfidenceToAction (cm_confidence (cms ! k)) = suggested) [0..<length cms]"

definition memoryKey :: "ContributingMemory \<Rightarrow> bool \<times> string" where
  \<comment> \<open>what identifies the stored memory of a contribution: the table and the id\<close>
  "memoryKey m = (cb_memoryType m = Vendor, cb_memoryId m)"

definition afterRejection :: "real \<times> nat \<times> bool \<times> nat \<Rightarrow> real \<times> nat \<times> bool \<times> nat" where
  \<comment> \<open>confidence, consecutive rejections, active flag and application count of a memory
      after one rejection: penalized, counted, deactivated at the limit\<close>
  "afterRejection e =
     (case e of (c, r, a, n) \<Rightarrow>
        (applyPenalty c, r + 1, a \<and> r + 1 < maxConsecutiveRejectionsBeforeDeactivation, n))"

definition timesListed :: "ContributingMemory list \<Rightarrow> ContributingMemory \<Rightarrow> nat" where
  \<comment> \<open>how many entries of the list name the stored memory of the contribution\<close>
  "timesListed cs m = length (filter (\<lambda>x. memoryKey x = memoryKey m) cs)"

definition afterRejections ::
  "Repository \<Rightarrow> ContributingMemory list \<Rightarrow> ContributingMemory
     \<Rightarrow> (real \<times> nat \<times> bool \<times> nat) option" where
  \<comment> \<open>the stored memory of the contribution after one rejection for each entry of the list
      that names it\<close>
  "afterRejections repo cs m =
     map_option (afterRejection ^^ timesListed cs m) (findExisting repo m)"

definition staysActive :: "(real \<times> nat \<times> bool \<times> nat) option \<Rightarrow> bool" where
  \<comment> \<open>the memory is stored and is active after one more rejection\<close>
  "staysActive e =
     (case e of
        None \<Rightarrow> False
      | Some (c, r, a, n) \<Rightarrow> a \<and> r + 1 < maxConsecutiveRejectionsBeforeDeactivation)"

definition becomesInactive :: "(real \<times> nat \<times> bool \<times> nat) option \<Rightarrow> bool" where
  \<comment> \<open>the memory is stored and is inactive after one more rejection\<close>
  "becomesInactive e =
     (case e of
        None \<Rightarrow> False
      | Some (c, r, a, n) \<Rightarrow> \<not> (a \<and> r + 1 < maxConsecutiveRejectionsBeforeDeactivation))"

definition deactivatedEntry :: "ContributingMemory \<Rightarrow> string" where
  \<comment> \<open>the report of a deactivation\<close>
  "deactivatedEntry m =
     memoryTypeName (cb_memoryType m) @ '' '' @ cb_memoryId m @ '' deactivated''"

definition penalizedEntry :: "(real \<times> nat \<times> bool \<times> nat) option \<Rightarrow> ContributingMemory \<Rightarrow> string" where
  \<comment> \<open>the report of a penalty on a memory that was stored as given\<close>
  "penalizedEntry e m =
     (case e of
        None \<Rightarrow> []
      | Some (c, r, a, n) \<Rightarrow>
          memoryTypeName (cb_memoryType m) @ '' '' @ cb_memoryId m @ '' penalized: ''
          @ toFixed 2 c @ arrow @ toFixed 2 (applyPenalty c))"

definition penalizedPositions :: "Repository \<Rightarrow> ContributingMemory list \<Rightarrow> nat list" where
  \<comment> \<open>the positions of the list whose memory, after the rejections of the entries before
      the position, stays active under one more\<close>
  "penalizedPositions repo cs =
     filter (\<lambda>k. staysActive (afterRejections repo (take k cs) (cs ! k))) [0..<length cs]"

definition deactivatedPositions :: "Repository \<Rightarrow> ContributingMemory list \<Rightarrow> nat list" where
  \<comment> \<open>the positions of the list whose memory, after the rejections of the entries before
      the position, is inactive under one more\<close>
  "deactivatedPositions repo cs =
     filter (\<lambda>k. becomesInactive (afterRejections repo (take k cs) (cs ! k))) [0..<length cs]"

section \<open>Example data\<close>

definition exVendorMemory :: "string \<Rightarrow> string \<Rightarrow> real \<Rightarrow> bool \<Rightarrow> VendorMemory" where
  "exVendorMemory i vendor c active = \<lparr>vm_id = i, vm_vendorId = vendor,
     vm_vendorName = ''Acme Corp'', vm_originalFieldName = ''Leistungsdatum'' @ i,
     vm_normalizedFieldName = ''serviceDate'', vm_confidence = c, vm_applicationCount = 0,
     vm_consecutiveRejections = 0, vm_createdAt = 0, vm_lastUsedAt = 0, vm_isActive = active\<rparr>"

definition exCorrectionMemory :: "string \<Rightarrow> string option \<Rightarrow> string \<Rightarrow> real \<Rightarrow> CorrectionMemory" where
  "exCorrectionMemory i vendor field c = \<lparr>cm_id = i, cm_vendorId = vendor, cm_fieldName = field,
     cm_originalValuePattern = ''*'', cm_correctedValue = ''EUR'', cm_confidence = c,
     cm_applicationCount = 0, cm_consecutiveRejections = 0, cm_createdAt = 0,
     cm_lastUsedAt = 0, cm_isActive = True\<rparr>"

definition exField :: "string \<Rightarrow> JsValue \<Rightarrow> real \<Rightarrow> string \<times> InvoiceField" where
  "exField n v c = (n, \<lparr>if_name = n, if_value = v, if_extractionConfidence = c,
     if_originalLabel = None\<rparr>)"

definition emptyRepo :: Repository where
  "emptyRepo = \<lparr>vendor_memories = [], correction_memories = [], resolution_memories = [],
     audit_trail = [], processed_invoices = []\<rparr>"

definition recallRepo :: Repository where
  "recallRepo = emptyRepo\<lparr>
     vendor_memories :=
       [exVendorMemory ''a'' ''acme corp'' 0.9 True, exVendorMemory ''b'' ''acme corp'' 0.4 True,
        exVendorMemory ''c'' ''acme corp'' 0.8 False, exVendorMemory ''d'' ''other'' 0.7 True,
        exVendorMemory ''e'' ''acme corp'' 0.95 True],
     correction_memories :=
       [exCorrectionMemory ''p'' (Some ''acme corp'') ''currency'' 0.3,
        exCorrectionMemory ''q'' None ''currency'' 0.6]\<rparr>"

definition recallInvoice :: Invoice where
  "recallInvoice = \<lparr>inv_id = ''INV-1'', inv_vendorId = ''  ACME   Corp '',
     inv_vendorName = ''Acme Corp'', inv_invoiceNumber = ''1'', inv_invoiceDate = 0,
     inv_fields = [exField ''currency'' JNull 0.4], inv_rawText = None\<rparr>"

definition applyState :: AppliedResult where
  "applyState = \<lparr>normalizedInvoice = [''currency'' \<mapsto> JStr ''USD''], appliedMemories = [],
     proposedCorrections = []\<rparr>"

definition exTrace :: "string \<Rightarrow> string \<Rightarrow> real \<Rightarrow> AppliedMemory" where
  "exTrace i field c = \<lparr>am_memoryId = i, am_memoryType = Vendor, am_fieldName = field,
     am_action = mapConfidenceToAction c, am_confidence = c, am_extractedValue = None\<rparr>"

definition decideInvoice :: Invoice where
  "decideInvoice = \<lparr>inv_id = ''INV-2'', inv_vendorId = ''Acme Corp'',
     inv_vendorName = ''Acme Corp'', inv_invoiceNumber = ''2'', inv_invoiceDate = 0,
     inv_fields = [exField ''serviceDate'' (JStr ''2024-01-01'') 0.9,
                   exField ''netTotal'' (JNum 100) 0.8],
     inv_rawText = None\<rparr>"

definition noMemories :: RecalledMemories where
  "noMemories = \<lparr>vendorMemories = [], correctionMemories = [], resolutionMemories = []\<rparr>"

definition textInvoice :: "string \<Rightarrow> Invoice" where
  \<comment> \<open>an invoice without a currency, with the given raw text\<close>
  "textInvoice t = \<lparr>inv_id = ''INV-3'', inv_vendorId = ''Parts AG'',
     inv_vendorName = ''Parts AG'', inv_invoiceNumber = ''3'', inv_invoiceDate = 0,
     inv_fields = [exField ''currency'' JNull 0.4], inv_rawText = Some t\<rparr>"

definition exOrder :: "string \<Rightarrow> string \<Rightarrow> int \<Rightarrow> (string \<times> real) list \<Rightarrow> PurchaseOrder" where
  "exOrder n vendor d items = \<lparr>po_poNumber = n, po_vendor = vendor, po_date = d,
     po_lineItems = map (\<lambda>(s, q). \<lparr>poli_sku = s, poli_qty = q, poli_unitPrice = 5\<rparr>) items\<rparr>"

definition itemsInvoice :: "string \<Rightarrow> int \<Rightarrow> (string \<times> real) list \<Rightarrow> Invoice" where
  \<comment> \<open>an invoice of the vendor, dated \<open>d\<close>, with the given line items\<close>
  "itemsInvoice vendor d items = \<lparr>inv_id = ''INV-4'', inv_vendorId = vendor,
     inv_vendorName = vendor, inv_invoiceNumber = ''4'', inv_invoiceDate = d,
     inv_fields = [exField ''lineItems''
       (JItems (map (\<lambda>(s, q). \<lparr>li_sku = Some s, li_qty = q\<rparr>) items)) 0.9],
     inv_rawText = None\<rparr>"

definition correctionsRecalled :: RecalledMemories where
  \<comment> \<open>three correction memories: auto-applied, suggested and flagged\<close>
  "correctionsRecalled = \<lparr>vendorMemories = [],
     correctionMemories =
       [exCorrectionMemory ''q'' None ''currency'' 0.9,
        (exCorrectionMemory ''r'' None ''currency'' 0.75)\<lparr>cm_correctedValue := ''CHF''\<rparr>,
        exCorrectionMemory ''s'' None ''netTotal'' 0.6],
     resolutionMemories = []\<rparr>"

definition rejectedMemories :: "ContributingMemory list" where
  "rejectedMemories =
     [\<lparr>cb_memoryId = ''v1'', cb_memoryType = Vendor, cb_fieldName = ''serviceDate'',
       cb_extractedValue = None\<rparr>,
      \<lparr>cb_memoryId = ''c1'', cb_memoryType = Correction, cb_fieldName = ''currency'',
       cb_extractedValue = Some (JStr ''EUR'')\<rparr>]"

definition learnService :: LearnService where
  \<comment> \<open>a vendor memory with two consecutive rejections and a fresh correction memory, both
      registered for the invoice INV-1\<close>
  "learnService = \<lparr>repository = emptyRepo\<lparr>
       vendor_memories :=
         [(exVendorMemory ''v1'' ''acme corp'' 0.6 True)\<lparr>vm_consecutiveRejections := 2\<rparr>],
       correction_memories := [exCorrectionMemory ''c1'' None ''currency'' 0.9]\<rparr>,
     contributingMemories = [''INV-1'' \<mapsto> rejectedMemories]\<rparr>"

definition rejectFeedback :: HumanFeedback where
  "rejectFeedback = \<lparr>hf_invoiceId = ''INV-1'', hf_action = reject, hf_corrections = None,
     hf_timestamp = 0\<rparr>"

section \<open>Properties\<close>

subsection \<open>Confidence arithmetic\<close>

text \<open>
  C1. With the default configuration, reinforcing the initial confidence 0.6 gives 0.62
  (within 1e-9) and penalising it gives 0.42; twenty reinforcements in sequence starting
  from 0.6 reach the auto-apply threshold 0.85; and two penalties applied to any
  confidence between 0.85 and the cap 0.95 give a value strictly below the
  minimum-usable threshold 0.50.
\<close>

theorem C1_confidence_arithmetic:
  "\<bar>applyReinforcement 0.6 - 0.62\<bar> \<le> 1 / 10 ^ 9
   \<and> applyPenalty 0.6 = 0.42
   \<and> (applyReinforcement ^^ 20) initialHumanCorrectionConfidence \<ge> autoApplyThreshold
   \<and> (\<forall>c. autoApplyThreshold \<le> c \<and> c \<le> maxConfidence
          \<longrightarrow> applyPenalty (applyPenalty c) < minimumThreshold)"
proof (intro conjI allI impI)
  show "\<bar>applyReinforcement 0.6 - 0.62\<bar> \<le> 1 / 10 ^ 9"
    by (simp add: applyReinforcement_def reinforcementFactor_def maxConfidence_def)
  show "applyPenalty 0.6 = 0.42"
    by (simp add: applyPenalty_def rejectionPenaltyFactor_def)
  show "(applyReinforcement ^^ 20) initialHumanCorrectionConfidence \<ge> autoApplyThreshold"
    by (simp add: eval_nat_numeral applyReinforcement_def reinforcementFactor_def
        maxConfidence_def initialHumanCorrectionConfidence_def autoApplyThreshold_def)
next
  fix c :: real
  assume "autoApplyThreshold \<le> c \<and> c \<le> maxConfidence"
  then have "0 \<le> c" and "c \<le> 0.95"
    by (simp_all add: autoApplyThreshold_def maxConfidence_def)
  then show "applyPenalty (applyPenalty c) < minimumThreshold"
    by (simp add: applyPenalty_def rejectionPenaltyFactor_def minimumThreshold_def max_def)
qed

theorem C1_confidence_arithmetic_witness:
  "applyPenalty (applyPenalty ((applyReinforcement ^^ 20) 0.6)) < minimumThreshold"
proof -
  have r: "(applyReinforcement ^^ 20) 0.6 \<le> maxConfidence"
    by (simp add: eval_nat_numeral applyReinforcement_def reinforcementFactor_def
        maxConfidence_def)
  have l: "autoApplyThreshold \<le> (applyReinforcement ^^ 20) 0.6"
    using C1_confidence_arithmetic by (simp add: initialHumanCorrectionConfidence_def)
  show ?thesis
    using C1_confidence_arithmetic l r by blast
qed

subsection \<open>Recall\<close>

lemma filterByConfidence_mset:
  "mset (filterByConfidence conf ms) = filter_mset (\<lambda>m. conf m \<ge> minimumThreshold) (mset ms)"
  by (simp add: filterByConfidence_def)

lemma filterByConfidence_set:
  "set (filterByConfidence conf ms) = {m \<in> set ms. conf m \<ge> minimumThreshold}"
  by (auto simp: filterByConfidence_def)

lemma filterByConfidence_sorted:
  "sorted_wrt (\<lambda>a b. conf a \<ge> conf b) (filterByConfidence conf ms)"
proof -
  have "sorted (map (\<lambda>m. - conf m) (filterByConfidence conf ms))"
    by (simp add: filterByConfidence_def)
  then show ?thesis
    by (simp add: sorted_map)
qed

lemma findVendorMemories_mset:
  "mset (findVendorMemories repo v)
     = filter_mset (\<lambda>m. vm_vendorId m = v \<and> vm_isActive m) (mset (vendor_memories repo))"
  by (simp add: findVendorMemories_def)

text \<open>
  C5. The vendor memories that Recall returns for an invoice are exactly (as a multiset of
  rows) the stored vendor memories whose vendor key is the normalized vendor of the
  invoice, that are active, and whose confidence is at least the minimum threshold; they
  come in descending order of confidence; and every recalled correction memory has a
  confidence of at least the minimum threshold as well.
\<close>

theorem C5_recall_filters_and_sorts:
  "mset (vendorMemories (rr_memories (recallMemories now repo invoice)))
     = filter_mset (\<lambda>m. vm_vendorId m = normalizeVendorName (inv_vendorId invoice)
                        \<and> vm_isActive m \<and> vm_confidence m \<ge> minimumThreshold)
         (mset (vendor_memories repo))
   \<and> sorted_wrt (\<lambda>a b. vm_confidence a \<ge> vm_confidence b)
         (vendorMemories (rr_memories (recallMemories now repo invoice)))
   \<and> (\<forall>m \<in> set (vendorMemories (rr_memories (recallMemories now repo invoice))).
          vm_confidence m \<ge> minimumThreshold)
   \<and> (\<forall>m \<in> set (correctionMemories (rr_memories (recallMemories now repo invoice))).
          cm_confidence m \<ge> minimumThreshold)
   \<and> sorted_wrt (\<lambda>a b. cm_confidence a \<ge> cm_confidence b)
         (correctionMemories (rr_memories (recallMemories now repo invoice)))"
proof (intro conjI)
  let ?v = "normalizeVendorName (inv_vendorId invoice)"
  have vm: "vendorMemories (rr_memories (recallMemories now repo invoice))
              = filterByConfidence vm_confidence (findVendorMemories repo ?v)"
    by (simp add: recallMemories_def Let_def)
  have cm: "correctionMemories (rr_memories (recallMemories now repo invoice))
              = recallCorrectionMemories repo ?v (map fst (inv_fields invoice))"
    by (simp add: recallMemories_def Let_def)
  show "mset (vendorMemories (rr_memories (recallMemories now repo invoice)))
     = filter_mset (\<lambda>m. vm_vendorId m = ?v \<and> vm_isActive m \<and> vm_confidence m \<ge> minimumThreshold)
         (mset (vendor_memories repo))"
    unfolding vm filterByConfidence_mset findVendorMemories_mset filter_filter_mset
    by (rule filter_mset_cong) auto
  show "sorted_wrt (\<lambda>a b. vm_confidence a \<ge> vm_confidence b)
         (vendorMemories (rr_memories (recallMemories now repo invoice)))"
    unfolding vm by (rule filterByConfidence_sorted)
  show "\<forall>m \<in> set (vendorMemories (rr_memories (recallMemories now repo invoice))).
          vm_confidence m \<ge> minimumThreshold"
    unfolding vm by (simp add: filterByConfidence_set)
  show "\<forall>m \<in> set (correctionMemories (rr_memories (recallMemories now repo invoice))).
          cm_confidence m \<ge> minimumThreshold"
    unfolding cm recallCorrectionMemories_def by (simp add: filterByConfidence_set)
  show "sorted_wrt (\<lambda>a b. cm_confidence a \<ge> cm_confidence b)
         (correctionMemories (rr_memories (recallMemories now repo invoice)))"
    unfolding cm recallCorrectionMemories_def by (rule filterByConfidence_sorted)
qed

theorem C5_recall_filters_and_sorts_witness:
  "map vm_id (vendorMemories (rr_memories (recallMemories 0 recallRepo recallInvoice)))
     = [''e'', ''a'']
   \<and> exVendorMemory ''a'' ''acme corp'' 0.9 True
        \<in> set (vendorMemories (rr_memories (recallMemories 0 recallRepo recallInvoice)))
   \<and> minimumThreshold \<le> vm_confidence (exVendorMemory ''a'' ''acme corp'' 0.9 True)
   \<and> exCorrectionMemory ''q'' None ''currency'' 0.6
        \<in> set (correctionMemories (rr_memories (recallMemories 0 recallRepo recallInvoice)))
   \<and> minimumThreshold \<le> cm_confidence (exCorrectionMemory ''q'' None ''currency'' 0.6)"
proof -
  have e: "map vm_id (vendorMemories (rr_memories (recallMemories 0 recallRepo recallInvoice)))
     = [''e'', ''a'']"
    by code_simp
  have v: "exVendorMemory ''a'' ''acme corp'' 0.9 True
        \<in> set (vendorMemories (rr_memories (recallMemories 0 recallRepo recallInvoice)))"
    by code_simp
  have c: "exCorrectionMemory ''q'' None ''currency'' 0.6
        \<in> set (correctionMemories (rr_memories (recallMemories 0 recallRepo recallInvoice)))"
    by code_simp
  show ?thesis
    using C5_recall_filters_and_sorts [of 0 recallRepo recallInvoice] e v c by blast
qed

subsection \<open>Apply: the result of the stage\<close>

lemma applyCorrectionMemory_applied:
  "appliedMemories (applyCorrectionMemory cm st) = appliedMemories st @
     [\<lparr>am_memoryId = cm_id cm, am_memoryType = Correction, am_fieldName = cm_fieldName cm,
       am_action = mapConfidenceToAction (cm_confidence cm), am_confidence = cm_confidence cm,
       am_extractedValue = Some (JStr (cm_correctedValue cm))\<rparr>]"
  by (simp add: applyCorrectionMemory_def Let_def)

lemma fold_applyCorrectionMemory_applied:
  "appliedMemories (fold applyCorrectionMemory cms st) = appliedMemories st @
     map (\<lambda>cm. \<lparr>am_memoryId = cm_id cm, am_memoryType = Correction,
                 am_fieldName = cm_fieldName cm,
                 am_action = mapConfidenceToAction (cm_confidence cm),
                 am_confidence = cm_confidence cm,
                 am_extractedValue = Some (JStr (cm_correctedValue cm))\<rparr>) cms"
  by (induction cms arbitrary: st) (simp_all add: applyCorrectionMemory_applied)

lemma applyVendorMemory_applied_length:
  "length (appliedMemories (applyVendorMemory invoice vm st)) = Suc (length (appliedMemories st))"
  by (simp add: applyVendorMemory_def Let_def)

lemma fold_applyVendorMemory_applied_length:
  "length (appliedMemories (fold (applyVendorMemory invoice) vms st))
     = length (appliedMemories st) + length vms"
  by (induction vms arbitrary: st) (simp_all add: applyVendorMemory_applied_length)

lemma applyMemories_result:
  "appliedResult (applyMemories now invoice memories)
     = (afterMemories invoice memories)
         \<lparr>normalizedInvoice :=
            snd (detectPatterns invoice ([], normalizedInvoice (afterMemories invoice memories)))\<rparr>"
  "detectedPatterns (applyMemories now invoice memories)
     = fst (detectPatterns invoice ([], normalizedInvoice (afterMemories invoice memories)))"
  by (simp_all add: applyMemories_def Let_def case_prod_beta)

lemma applyMemories_applied:
  "appliedMemories (appliedResult (applyMemories now invoice memories))
     = appliedMemories (afterMemories invoice memories)"
  by (simp add: applyMemories_result)

subsection \<open>Decide: overall confidence\<close>

lemma foldl_plus_sum_list: "foldl (+) a xs = a + sum_list (xs :: real list)"
  by (induction xs arbitrary: a) simp_all

lemma fold_memConfStep_None:
  "fold memConfStep ms mp name = None \<longleftrightarrow> mp name = None \<and> name \<notin> am_fieldName ` set ms"
proof (induction ms arbitrary: mp)
  case Nil
  then show ?case by simp
next
  case (Cons m ms)
  have "memConfStep m mp name = None \<longleftrightarrow> mp name = None \<and> name \<noteq> am_fieldName m"
    by (auto simp: memConfStep_def split: option.splits)
  with Cons show ?case by auto
qed

lemma fold_memConfStep_Some:
  "fold memConfStep ms mp name = Some c \<Longrightarrow>
     mp name = Some c \<or> (\<exists>m \<in> set ms. am_fieldName m = name \<and> am_confidence m = c)"
proof (induction ms arbitrary: mp)
  case Nil
  then show ?case by simp
next
  case (Cons m ms)
  from Cons.prems have "fold memConfStep ms (memConfStep m mp) name = Some c"
    by simp
  from Cons.IH [OF this] show ?case
    by (auto simp: memConfStep_def split: option.splits if_splits)
qed

lemma fold_memConfStep_upper:
  assumes "\<forall>m \<in> set ms. 0 < am_confidence m"
    and "\<forall>n c. mp n = Some c \<longrightarrow> 0 < c"
    and "fold memConfStep ms mp name = Some c"
  shows "(\<forall>m \<in> set ms. am_fieldName m = name \<longrightarrow> am_confidence m \<le> c)
         \<and> (\<forall>c0. mp name = Some c0 \<longrightarrow> c0 \<le> c)"
  using assms
proof (induction ms arbitrary: mp)
  case Nil
  then show ?case by simp
next
  case (Cons m ms)
  have pos: "\<forall>n c. memConfStep m mp n = Some c \<longrightarrow> 0 < c"
    using Cons.prems(1,2) by (auto simp: memConfStep_def split: option.splits if_splits)
  have run: "fold memConfStep ms (memConfStep m mp) name = Some c"
    using Cons.prems(3) by simp
  have ih: "(\<forall>m' \<in> set ms. am_fieldName m' = name \<longrightarrow> am_confidence m' \<le> c)
         \<and> (\<forall>c0. memConfStep m mp name = Some c0 \<longrightarrow> c0 \<le> c)"
    using Cons.IH [OF _ pos run] Cons.prems(1) by simp
  have here: "am_fieldName m = name \<longrightarrow> am_confidence m \<le> c"
  proof
    assume n: "am_fieldName m = name"
    have "\<exists>c1. memConfStep m mp name = Some c1 \<and> am_confidence m \<le> c1"
      using n by (cases "mp name") (auto simp: memConfStep_def)
    with ih show "am_confidence m \<le> c" by force
  qed
  have old: "\<forall>c0. mp name = Some c0 \<longrightarrow> c0 \<le> c"
  proof (intro allI impI)
    fix c0 assume c0: "mp name = Some c0"
    have "0 < am_confidence m"
      using Cons.prems(1) by simp
    then have "\<exists>c1. memConfStep m mp name = Some c1 \<and> c0 \<le> c1"
      using c0 by (cases "am_fieldName m = name")
        (auto simp: memConfStep_def split: option.splits)
    with ih show "c0 \<le> c" by force
  qed
  from ih here old show ?case by simp
qed

lemma calcOverallConfidence_closed:
  "calcOverallConfidence invoice memories =
     (if inv_fields invoice = [] then 0
      else max 0 (min 1
             (sum_list (map (\<lambda>(name, field).
                               case memConfMap memories name of
                                 Some memConf \<Rightarrow> memConf * min (if_extractionConfidence field) 1
                               | None \<Rightarrow> min (if_extractionConfidence field)
                                           (suggestionThreshold - 0.01))
                          (inv_fields invoice))
              / real (length (inv_fields invoice)))))"
  by (simp add: calcOverallConfidence_def Let_def foldl_plus_sum_list)

lemma makeDecision_overall:
  "overallConfidence (decision (makeDecision now repo applied invoice patterns))
     = calcOverallConfidence invoice (appliedMemories applied)"
  by (simp add: makeDecision_def Let_def)

text \<open>
  C3. The overall confidence that the Decide stage returns in its decision is 0 for an
  invoice without fields and otherwise the arithmetic mean over the invoice fields,
  clamped to [0,1], of: the memory confidence times min(extraction confidence, 1) when the
  field has an applied-memory trace among the traces handed to the stage, and
  min(extraction confidence, suggestion threshold - 0.01) otherwise. It is the value of
  \<open>calcOverallConfidence\<close> on the invoice and these traces, for which the same closed form
  holds on every list of traces. The memory confidence of a field is defined exactly when
  a trace for the field exists, it is the confidence of one of the traces for the field,
  and (confidences being positive) no trace for the field has a higher one.
\<close>

theorem C3_overall_confidence:
  "overallConfidence (decision (makeDecision now repo applied invoice patterns)) =
     (if inv_fields invoice = [] then 0
      else max 0 (min 1
             (sum_list (map (\<lambda>(name, field).
                               case memConfMap (appliedMemories applied) name of
                                 Some memConf \<Rightarrow> memConf * min (if_extractionConfidence field) 1
                               | None \<Rightarrow> min (if_extractionConfidence field)
                                           (suggestionThreshold - 0.01))
                          (inv_fields invoice))
              / real (length (inv_fields invoice)))))
   \<and> overallConfidence (decision (makeDecision now repo applied invoice patterns))
       = calcOverallConfidence invoice (appliedMemories applied)
   \<and> calcOverallConfidence invoice memories =
     (if inv_fields invoice = [] then 0
      else max 0 (min 1
             (sum_list (map (\<lambda>(name, field).
                               case memConfMap memories name of
                                 Some memConf \<Rightarrow> memConf * min (if_extractionConfidence field) 1
                               | None \<Rightarrow> min (if_extractionConfidence field)
                                           (suggestionThreshold - 0.01))
                          (inv_fields invoice))
              / real (length (inv_fields invoice)))))
   \<and> (\<forall>name. memConfMap memories name = None \<longleftrightarrow> name \<notin> am_fieldName ` set memories)
   \<and> (\<forall>name c. memConfMap memories name = Some c \<longrightarrow>
          (\<exists>m \<in> set memories. am_fieldName m = name \<and> am_confidence m = c))
   \<and> ((\<forall>m \<in> set memories. 0 < am_confidence m) \<longrightarrow>
        (\<forall>name c. memConfMap memories name = Some c \<longrightarrow>
           (\<forall>m \<in> set memories. am_fieldName m = name \<longrightarrow> am_confidence m \<le> c)))"
proof (intro conjI allI impI)
  show "overallConfidence (decision (makeDecision now repo applied invoice patterns)) =
     (if inv_fields invoice = [] then 0
      else max 0 (min 1
             (sum_list (map (\<lambda>(name, field).
                               case memConfMap (appliedMemories applied) name of
                                 Some memConf \<Rightarrow> memConf * min (if_extractionConfidence field) 1
                               | None \<Rightarrow> min (if_extractionConfidence field)
                                           (suggestionThreshold - 0.01))
                          (inv_fields invoice))
              / real (length (inv_fields invoice)))))"
    by (simp add: makeDecision_overall calcOverallConfidence_closed)
next
  show "overallConfidence (decision (makeDecision now repo applied invoice patterns))
       = calcOverallConfidence invoice (appliedMemories applied)"
    by (rule makeDecision_overall)
next
  show "calcOverallConfidence invoice memories =
     (if inv_fields invoice = [] then 0
      else max 0 (min 1
             (sum_list (map (\<lambda>(name, field).
                               case memConfMap memories name of
                                 Some memConf \<Rightarrow> memConf * min (if_extractionConfidence field) 1
                               | None \<Rightarrow> min (if_extractionConfidence field)
                                           (suggestionThreshold - 0.01))
                          (inv_fields invoice))
              / real (length (inv_fields invoice)))))"
    by (rule calcOverallConfidence_closed)
next
  fix name
  show "memConfMap memories name = None \<longleftrightarrow> name \<notin> am_fieldName ` set memories"
    by (simp add: memConfMap_def fold_memConfStep_None)
next
  fix name c
  assume "memConfMap memories name = Some c"
  then show "\<exists>m \<in> set memories. am_fieldName m = name \<and> am_confidence m = c"
    using fold_memConfStep_Some [of memories Map.empty name c] by (simp add: memConfMap_def)
next
  fix name c
  assume "\<forall>m \<in> set memories. 0 < am_confidence m" and "memConfMap memories name = Some c"
  then show "\<forall>m \<in> set memories. am_fieldName m = name \<longrightarrow> am_confidence m \<le> c"
    using fold_memConfStep_upper [of memories Map.empty name c] by (simp add: memConfMap_def)
qed

theorem C3_overall_confidence_witness:
  "overallConfidence (decision (makeDecision 0 emptyRepo
      \<lparr>normalizedInvoice = Map.empty,
       appliedMemories = [exTrace ''m1'' ''serviceDate'' 0.9, exTrace ''m2'' ''serviceDate'' 0.7],
       proposedCorrections = []\<rparr> decideInvoice [])) = 3 / 4
   \<and> calcOverallConfidence decideInvoice
      [exTrace ''m1'' ''serviceDate'' 0.9, exTrace ''m2'' ''serviceDate'' 0.7] = 3 / 4
   \<and> memConfMap [exTrace ''m1'' ''serviceDate'' 0.9, exTrace ''m2'' ''serviceDate'' 0.7]
        ''serviceDate'' = Some 0.9
   \<and> (\<exists>m \<in> set [exTrace ''m1'' ''serviceDate'' 0.9, exTrace ''m2'' ''serviceDate'' 0.7].
         am_fieldName m = ''serviceDate'' \<and> am_confidence m = 0.9)
   \<and> am_confidence (exTrace ''m2'' ''serviceDate'' 0.7) \<le> 0.9"
proof -
  let ?ms = "[exTrace ''m1'' ''serviceDate'' 0.9, exTrace ''m2'' ''serviceDate'' 0.7]"
  let ?applied = "\<lparr>normalizedInvoice = Map.empty, appliedMemories = ?ms,
                    proposedCorrections = []\<rparr>"
  note inst = C3_overall_confidence [where invoice = decideInvoice and memories = "?ms"
      and applied = "?applied" and now = 0 and repo = emptyRepo and patterns = "[]"]
  have mc: "memConfMap ?ms ''serviceDate'' = Some 0.9"
    by (simp add: memConfMap_def memConfStep_def exTrace_def)
  have mn: "memConfMap ?ms ''netTotal'' = None"
    by (simp add: memConfMap_def memConfStep_def exTrace_def)
  have pos: "\<forall>m \<in> set ?ms. 0 < am_confidence m"
    by (simp add: exTrace_def)
  have d: "overallConfidence (decision (makeDecision 0 emptyRepo ?applied decideInvoice []))
             = 3 / 4"
    using inst [THEN conjunct1] mc mn
    by (simp add: decideInvoice_def exField_def suggestionThreshold_def)
  have v: "calcOverallConfidence decideInvoice ?ms = 3 / 4"
    using inst [THEN conjunct2, THEN conjunct2, THEN conjunct1] mc mn
    by (simp add: decideInvoice_def exField_def suggestionThreshold_def)
  have e: "\<exists>m \<in> set ?ms. am_fieldName m = ''serviceDate'' \<and> am_confidence m = 0.9"
    using inst mc by blast
  have u: "am_confidence (exTrace ''m2'' ''serviceDate'' 0.7) \<le> 0.9"
    using inst mc pos by (simp add: exTrace_def)
  show ?thesis
    using d v mc e u by blast
qed

subsection \<open>Apply: pattern detection\<close>

lemma lowerChar_outside: "c \<notin> set (upperLetters @ upperLatin) \<Longrightarrow> lowerChar c = c"
proof -
  assume "c \<notin> set (upperLetters @ upperLatin)"
  then have "c \<notin> fst ` set (zip (upperLetters @ upperLatin) (lowerLetters @ lowerLatin))"
    by (auto dest: set_zip_leftD)
  then have "map_of (zip (upperLetters @ upperLatin) (lowerLetters @ lowerLatin)) c = None"
    by (simp add: map_of_eq_None_iff)
  then show ?thesis
    by (simp add: lowerChar_def)
qed

lemma lowerChar_table:
  "\<forall>c \<in> set (upperLetters @ upperLatin).
     lowerChar (lowerChar c) = lowerChar c
     \<and> isWordChar (lowerChar c) = isWordChar c
     \<and> (lowerChar c \<in> set lowerLetters \<longrightarrow> upperChar (lowerChar c) = upperChar c)"
  by code_simp

lemma lowerChar_idem: "lowerChar (lowerChar c) = lowerChar c"
  using lowerChar_table lowerChar_outside [of c]
  by (cases "c \<in> set (upperLetters @ upperLatin)") auto













lemma toLowerCase_append: "toLowerCase (a @ b) = toLowerCase a @ toLowerCase b"
  by (simp add: toLowerCase_def)

lemma toLowerCase_idem: "toLowerCase (toLowerCase s) = toLowerCase s"
  by (simp add: toLowerCase_def lowerChar_idem)









lemma currencyTokenAt_Nil: "\<not> currencyTokenAt [] i"
  by (simp add: currencyTokenAt_def currencyTokenFrom_def)

lemma detectSkonto_snd: "snd (detectSkonto text st) = snd st"
  by (simp add: detectSkonto_def Let_def case_prod_beta)

lemma detectSku_snd: "snd (detectSku text st) = snd st"
  by (simp add: detectSku_def case_prod_beta)

lemma detectTax_snd: "snd (detectTax text st) = snd st"
  by (simp add: detectTax_def case_prod_beta)




lemma detectPatterns_snd:
  "snd (detectPatterns invoice st)
     = snd (detectCurrency (case inv_rawText invoice of None \<Rightarrow> [] | Some t \<Rightarrow> toLowerCase t) st)"
  by (simp add: detectPatterns_def Let_def detectSkonto_snd detectSku_snd detectTax_snd)





subsection \<open>Apply: currency recovery\<close>




subsection \<open>Decide: the review flag\<close>

lemma startsWith_prefix: "startsWith p s \<longleftrightarrow> prefix p s"
  by (induction p s rule: startsWith.induct) auto

lemma strIncludes_sublist: "strIncludes s p \<longleftrightarrow> sublist p s"
  by (induction s) (auto simp: startsWith_prefix sublist_Cons_right)

lemma sweepMemory_review:
  "r \<Longrightarrow> fst (snd (fold sweepMemory ms (h, r, fs)))"
  by (induction ms arbitrary: h fs) (auto simp: sweepMemory_def)

lemma makeDecision_review:
  "requiresHumanReview (decision (makeDecision now repo applied invoice patterns)) \<longleftrightarrow>
     fst (snd (fold sweepMemory (appliedMemories applied)
        (0, (checkForDuplicates repo invoice \<noteq> None
             \<or> filter (\<lambda>(name, field). if_extractionConfidence field < 0.6) (inv_fields invoice) \<noteq> [])
            \<or> filter (\<lambda>f. f \<notin> set (map am_fieldName (appliedMemories applied)))
                 (map fst (inv_fields invoice)) \<noteq> [],
         fold (\<lambda>f fs. if f \<in> set fs then fs else fs @ [f])
           (filter (\<lambda>f. f \<notin> set (map am_fieldName (appliedMemories applied)))
              (map fst (inv_fields invoice)))
           (map fst (filter (\<lambda>(name, field). if_extractionConfidence field < 0.6)
              (inv_fields invoice))))))
     \<or> proposedCorrections applied \<noteq> []
     \<or> (\<exists>p \<in> set patterns. dp_type p = tax_inclusive)"
  by (simp add: makeDecision_def Let_def)

lemma makeDecision_review_tax:
  "\<exists>p \<in> set patterns. dp_type p = tax_inclusive \<Longrightarrow>
     requiresHumanReview (decision (makeDecision now repo applied invoice patterns))"
  by (simp add: makeDecision_review)

lemma makeDecision_review_duplicate:
  "checkForDuplicates repo invoice \<noteq> None \<Longrightarrow>
     requiresHumanReview (decision (makeDecision now repo applied invoice patterns))"
  by (simp add: makeDecision_review sweepMemory_review)

subsection \<open>Apply and Decide: the tax-inclusive indicator\<close>

lemma detectCurrency_fst_mono: "set (fst st) \<subseteq> set (fst (detectCurrency lowered st))"
  by (auto simp: detectCurrency_def Let_def split: prod.splits option.splits list.splits)

lemma detectCurrency_other:
  "k \<noteq> ''currency'' \<Longrightarrow> snd (detectCurrency lowered st) k = snd st k"
  by (auto simp: detectCurrency_def Let_def split: prod.splits option.splits list.splits)

lemma detectTax_found:
  assumes "sublist ''incl. vat'' lowered \<or> sublist ''mwst. inkl'' lowered
           \<or> sublist ''inkl. mwst'' lowered"
  shows "fst (detectTax lowered st) = fst st @
           [\<lparr>dp_type = tax_inclusive, dp_details = [(''textIndicator'', JBool True)],
             dp_fieldName = None,
             dp_suggestedAction = Some ''Tax inclusive indicator found - verify amounts''\<rparr>]"
  using assms by (simp add: detectTax_def case_prod_beta strIncludes_sublist)

lemma detectTax_not_found:
  assumes "\<not> (sublist ''incl. vat'' lowered \<or> sublist ''mwst. inkl'' lowered
           \<or> sublist ''inkl. mwst'' lowered)"
  shows "detectTax lowered st = st"
  using assms by (simp add: detectTax_def case_prod_beta strIncludes_sublist)

text \<open>
  C8 (as amended). For every invoice whose raw text, in lower case, contains
  \<open>incl. vat\<close>, \<open>mwst. inkl\<close> or \<open>inkl. mwst\<close>, the Apply stage emits a detected pattern
  of type tax\_inclusive; the tax block leaves the normalized record as it is, and pattern
  detection as a whole changes no field other than \<open>currency\<close>; and whenever a
  tax\_inclusive pattern is among the detected patterns, the Decide stage sets
  requiresHumanReview.
\<close>

theorem C8_tax_inclusive:
  "(inv_rawText invoice = Some raw
    \<and> (sublist ''incl. vat'' (toLowerCase raw) \<or> sublist ''mwst. inkl'' (toLowerCase raw)
       \<or> sublist ''inkl. mwst'' (toLowerCase raw)) \<longrightarrow>
      \<lparr>dp_type = tax_inclusive, dp_details = [(''textIndicator'', JBool True)],
        dp_fieldName = None,
        dp_suggestedAction = Some ''Tax inclusive indicator found - verify amounts''\<rparr>
      \<in> set (detectedPatterns (applyMemories now invoice memories)))
   \<and> snd (detectTax lowered st) = snd st
   \<and> (\<forall>k. k \<noteq> ''currency'' \<longrightarrow>
         normalizedInvoice (appliedResult (applyMemories now invoice memories)) k
           = normalizedInvoice (afterMemories invoice memories) k)
   \<and> ((\<exists>p \<in> set patterns. dp_type p = tax_inclusive) \<longrightarrow>
        requiresHumanReview (decision (makeDecision now repo applied invoice patterns)))"
proof (intro conjI impI allI)
  assume a: "inv_rawText invoice = Some raw
    \<and> (sublist ''incl. vat'' (toLowerCase raw) \<or> sublist ''mwst. inkl'' (toLowerCase raw)
       \<or> sublist ''inkl. mwst'' (toLowerCase raw))"
  then have "fst (detectPatterns invoice ([], normalizedInvoice (afterMemories invoice memories)))
      = fst (detectSku (toLowerCase raw) (detectSkonto (toLowerCase raw)
          (detectCurrency (toLowerCase raw)
             ([], normalizedInvoice (afterMemories invoice memories))))) @
           [\<lparr>dp_type = tax_inclusive, dp_details = [(''textIndicator'', JBool True)],
             dp_fieldName = None,
             dp_suggestedAction = Some ''Tax inclusive indicator found - verify amounts''\<rparr>]"
    by (simp add: detectPatterns_def Let_def detectTax_found)
  then show "\<lparr>dp_type = tax_inclusive, dp_details = [(''textIndicator'', JBool True)],
        dp_fieldName = None,
        dp_suggestedAction = Some ''Tax inclusive indicator found - verify amounts''\<rparr>
      \<in> set (detectedPatterns (applyMemories now invoice memories))"
    by (simp add: applyMemories_result)
next
  show "snd (detectTax lowered st) = snd st"
    by (rule detectTax_snd)
next
  fix k :: string
  assume "k \<noteq> ''currency''"
  then show "normalizedInvoice (appliedResult (applyMemories now invoice memories)) k
           = normalizedInvoice (afterMemories invoice memories) k"
    by (simp add: applyMemories_result detectPatterns_snd detectCurrency_other)
next
  assume "\<exists>p \<in> set patterns. dp_type p = tax_inclusive"
  then show "requiresHumanReview (decision (makeDecision now repo applied invoice patterns))"
    by (rule makeDecision_review_tax)
qed

theorem C8_tax_inclusive_witness:
  "\<lparr>dp_type = tax_inclusive, dp_details = [(''textIndicator'', JBool True)],
     dp_fieldName = None,
     dp_suggestedAction = Some ''Tax inclusive indicator found - verify amounts''\<rparr>
     \<in> set (detectedPatterns (applyMemories 0 (textInvoice ''Prices incl. VAT'') noMemories))
   \<and> normalizedInvoice
        (appliedResult (applyMemories 0 (textInvoice ''Prices incl. VAT'') noMemories))
        ''netTotal''
      = normalizedInvoice (afterMemories (textInvoice ''Prices incl. VAT'') noMemories)
          ''netTotal''
   \<and> requiresHumanReview (decision (makeDecision 0 emptyRepo
        (appliedResult (applyMemories 0 (textInvoice ''Prices incl. VAT'') noMemories))
        (textInvoice ''Prices incl. VAT'')
        (detectedPatterns (applyMemories 0 (textInvoice ''Prices incl. VAT'') noMemories))))"
proof -
  let ?inv = "textInvoice ''Prices incl. VAT''"
  let ?res = "applyMemories 0 ?inv noMemories"
  note t = C8_tax_inclusive [where invoice = ?inv and raw = "''Prices incl. VAT''"
      and now = 0 and memories = noMemories and patterns = "detectedPatterns ?res"
      and repo = emptyRepo and applied = "appliedResult ?res"]
  have "strIncludes (toLowerCase ''Prices incl. VAT'') ''incl. vat''"
    by code_simp
  then have s: "sublist ''incl. vat'' (toLowerCase ''Prices incl. VAT'')"
    by (simp only: strIncludes_sublist)
  have r: "inv_rawText ?inv = Some ''Prices incl. VAT''"
    by (simp add: textInvoice_def)
  have p1: "\<lparr>dp_type = tax_inclusive, dp_details = [(''textIndicator'', JBool True)],
     dp_fieldName = None,
     dp_suggestedAction = Some ''Tax inclusive indicator found - verify amounts''\<rparr>
     \<in> set (detectedPatterns ?res)"
    using t [THEN conjunct1] r s by blast
  have p2: "normalizedInvoice (appliedResult ?res) ''netTotal''
      = normalizedInvoice (afterMemories ?inv noMemories) ''netTotal''"
    using t [THEN conjunct2, THEN conjunct2, THEN conjunct1, rule_format, of "''netTotal''"]
    by simp
  have "\<exists>p \<in> set (detectedPatterns ?res). dp_type p = tax_inclusive"
    using p1 by (rule bexI [rotated]) simp
  then have p3: "requiresHumanReview (decision (makeDecision 0 emptyRepo
        (appliedResult ?res) ?inv (detectedPatterns ?res)))"
    using t [THEN conjunct2, THEN conjunct2, THEN conjunct2] by blast
  show ?thesis
    using p1 p2 p3 by blast
qed

text \<open>
  The claim as stated fails for the phrase \<open>incl. tax\<close>, which the expression of the
  source does not list: the raw text below contains it and no pattern is emitted.
\<close>

theorem C8_tax_inclusive_counterexample:
  "inv_rawText (textInvoice ''Prices incl. tax'') = Some ''Prices incl. tax''
   \<and> strIncludes ''Prices incl. tax'' ''incl. tax''
   \<and> detectedPatterns (applyMemories 0 (textInvoice ''Prices incl. tax'') noMemories) = []"
  by code_simp

subsection \<open>Apply: correction memories\<close>

lemma applyCorrectionMemory_record:
  "normalizedInvoice (applyCorrectionMemory cm st)
     = (if mapConfidenceToAction (cm_confidence cm) = auto_applied
        then (normalizedInvoice st)(cm_fieldName cm \<mapsto> JStr (cm_correctedValue cm))
        else normalizedInvoice st)"
  by (simp add: applyCorrectionMemory_def Let_def)

lemma applyCorrectionMemory_proposed:
  "proposedCorrections (applyCorrectionMemory cm st)
     = (if mapConfidenceToAction (cm_confidence cm) = suggested
        then proposedCorrections st @ [correctionProposal (normalizedInvoice st) cm]
        else proposedCorrections st)"
  by (simp add: applyCorrectionMemory_def correctionProposal_def Let_def)

lemma correctedRecord_snoc:
  "correctedRecord record (cms @ [cm]) field
     = (if cm_fieldName cm = field \<and> mapConfidenceToAction (cm_confidence cm) = auto_applied
        then Some (JStr (cm_correctedValue cm))
        else correctedRecord record cms field)"
  by (simp add: correctedRecord_def lastAutoApplied_def)

lemma fold_applyCorrectionMemory_field:
  "normalizedInvoice (fold applyCorrectionMemory cms st) field
     = correctedRecord (normalizedInvoice st) cms field"
proof (induction cms rule: rev_induct)
  case Nil
  show ?case by (simp add: correctedRecord_def lastAutoApplied_def)
next
  case (snoc cm cms)
  then show ?case
    by (simp add: applyCorrectionMemory_record correctedRecord_snoc)
qed

lemma fold_applyCorrectionMemory_record:
  "normalizedInvoice (fold applyCorrectionMemory cms st)
     = correctedRecord (normalizedInvoice st) cms"
  by (rule ext) (rule fold_applyCorrectionMemory_field)

lemma suggestedPositions_less: "k \<in> set (suggestedPositions cms) \<Longrightarrow> k < length cms"
  by (simp add: suggestedPositions_def)

lemma suggestedPositions_snoc:
  "suggestedPositions (cms @ [cm])
     = suggestedPositions cms
       @ (if mapConfidenceToAction (cm_confidence cm) = suggested then [length cms] else [])"
proof -
  have "filter (\<lambda>k. mapConfidenceToAction (cm_confidence ((cms @ [cm]) ! k)) = suggested)
          [0..<length cms]
        = filter (\<lambda>k. mapConfidenceToAction (cm_confidence (cms ! k)) = suggested)
          [0..<length cms]"
    by (rule filter_cong) (simp_all add: nth_append)
  then show ?thesis
    by (simp add: suggestedPositions_def)
qed

lemma fold_applyCorrectionMemory_proposed:
  "proposedCorrections (fold applyCorrectionMemory cms st)
     = proposedCorrections st
       @ map (\<lambda>k. correctionProposal (correctedRecord (normalizedInvoice st) (take k cms))
                    (cms ! k))
           (suggestedPositions cms)"
proof (induction cms rule: rev_induct)
  case Nil
  show ?case by (simp add: suggestedPositions_def)
next
  case (snoc cm cms)
  have old: "map (\<lambda>k. correctionProposal
                        (correctedRecord (normalizedInvoice st) (take k (cms @ [cm])))
                        ((cms @ [cm]) ! k))
               (suggestedPositions cms)
             = map (\<lambda>k. correctionProposal
                        (correctedRecord (normalizedInvoice st) (take k cms)) (cms ! k))
               (suggestedPositions cms)"
  proof (rule map_cong)
    fix k assume "k \<in> set (suggestedPositions cms)"
    then have k: "k < length cms"
      by (rule suggestedPositions_less)
    then have "take k (cms @ [cm]) = take k cms" and "(cms @ [cm]) ! k = cms ! k"
      by (simp_all add: nth_append)
    then show "correctionProposal
                 (correctedRecord (normalizedInvoice st) (take k (cms @ [cm])))
                 ((cms @ [cm]) ! k)
               = correctionProposal
                   (correctedRecord (normalizedInvoice st) (take k cms)) (cms ! k)"
      by simp
  qed (rule refl)
  have last: "take (length cms) (cms @ [cm]) = cms"
    by simp
  show ?case
    by (simp add: applyCorrectionMemory_proposed suggestedPositions_snoc snoc.IH old last
        fold_applyCorrectionMemory_record del: take_append)
qed

lemma detectCurrency_truthy:
  "truthy (normalized ''currency'') \<Longrightarrow>
     detectCurrency lowered (patterns, normalized) = (patterns, normalized)"
  by (simp add: detectCurrency_def)

lemma applyMemories_record:
  assumes "field \<noteq> ''currency''
           \<or> truthy (normalizedInvoice (afterMemories invoice memories) field)"
  shows "normalizedInvoice (appliedResult (applyMemories now invoice memories)) field
           = normalizedInvoice (afterMemories invoice memories) field"
proof (cases "field = ''currency''")
  case False
  then show ?thesis
    by (simp add: applyMemories_result detectPatterns_snd detectCurrency_other)
next
  case True
  with assms have "truthy (normalizedInvoice (afterMemories invoice memories) ''currency'')"
    by simp
  then show ?thesis
    by (simp add: applyMemories_result detectPatterns_snd detectCurrency_truthy)
qed

text \<open>
  C6. The Apply stage processes the recalled correction memories in order, after the
  vendor memories. Its traces are those of the vendor memories followed by one trace
  entry for every correction memory (id, kind correction, field, action, confidence and
  corrected value), whatever the action. Its proposed corrections are those of the vendor
  memories followed by one proposal for every correction memory whose action is
  suggested, in order, with the corrected value as the suggestion and, as the current
  value, the field as the memories before it left it. Its normalized record, before
  pattern detection, is the record the vendor memories left with every field that has an
  auto-applied correction memory overwritten by the corrected value of the last such
  memory; the stage returns that value for every field but a \<open>currency\<close> left falsy,
  which pattern detection may fill. One round of the loop appends the trace entry; if the
  action is auto\_applied it overwrites the field and proposes nothing; if it is
  suggested it appends a proposal and leaves the record as it is; if it is flagged it
  changes neither the record nor the proposals.
\<close>

theorem C6_apply_correction_memory:
  "appliedMemories (appliedResult (applyMemories now invoice memories))
     = appliedMemories (afterVendorMemories invoice memories)
       @ map correctionTrace (correctionMemories memories)
   \<and> proposedCorrections (appliedResult (applyMemories now invoice memories))
       = proposedCorrections (afterVendorMemories invoice memories)
         @ map (\<lambda>k. correctionProposal
                      (correctedRecord (normalizedInvoice (afterVendorMemories invoice memories))
                         (take k (correctionMemories memories)))
                      (correctionMemories memories ! k))
             (suggestedPositions (correctionMemories memories))
   \<and> normalizedInvoice (afterMemories invoice memories)
       = correctedRecord (normalizedInvoice (afterVendorMemories invoice memories))
           (correctionMemories memories)
   \<and> (\<forall>field. field \<noteq> ''currency''
          \<or> truthy (correctedRecord (normalizedInvoice (afterVendorMemories invoice memories))
                       (correctionMemories memories) field) \<longrightarrow>
        normalizedInvoice (appliedResult (applyMemories now invoice memories)) field
          = correctedRecord (normalizedInvoice (afterVendorMemories invoice memories))
              (correctionMemories memories) field)
   \<and> appliedMemories (applyCorrectionMemory cm st) = appliedMemories st @
     [\<lparr>am_memoryId = cm_id cm, am_memoryType = Correction, am_fieldName = cm_fieldName cm,
       am_action = mapConfidenceToAction (cm_confidence cm), am_confidence = cm_confidence cm,
       am_extractedValue = Some (JStr (cm_correctedValue cm))\<rparr>]
   \<and> (mapConfidenceToAction (cm_confidence cm) = auto_applied \<longrightarrow>
        normalizedInvoice (applyCorrectionMemory cm st)
          = (normalizedInvoice st)(cm_fieldName cm \<mapsto> JStr (cm_correctedValue cm))
        \<and> proposedCorrections (applyCorrectionMemory cm st) = proposedCorrections st)
   \<and> (mapConfidenceToAction (cm_confidence cm) = suggested \<longrightarrow>
        normalizedInvoice (applyCorrectionMemory cm st) = normalizedInvoice st
        \<and> (\<exists>pc. proposedCorrections (applyCorrectionMemory cm st) = proposedCorrections st @ [pc]
              \<and> pc_fieldName pc = cm_fieldName cm
              \<and> pc_currentValue pc = normalizedInvoice st (cm_fieldName cm)
              \<and> pc_suggestedValue pc = Some (JStr (cm_correctedValue cm))
              \<and> pc_memoryId pc = cm_id cm \<and> pc_confidence pc = cm_confidence cm))
   \<and> (mapConfidenceToAction (cm_confidence cm) = flagged \<longrightarrow>
        normalizedInvoice (applyCorrectionMemory cm st) = normalizedInvoice st
        \<and> proposedCorrections (applyCorrectionMemory cm st) = proposedCorrections st)
   \<and> drop (length (vendorMemories memories))
        (appliedMemories (appliedResult (applyMemories now invoice memories)))
      = map (\<lambda>cm. \<lparr>am_memoryId = cm_id cm, am_memoryType = Correction,
                    am_fieldName = cm_fieldName cm,
                    am_action = mapConfidenceToAction (cm_confidence cm),
                    am_confidence = cm_confidence cm,
                    am_extractedValue = Some (JStr (cm_correctedValue cm))\<rparr>)
          (correctionMemories memories)"
proof -
  have traces: "appliedMemories (appliedResult (applyMemories now invoice memories))
     = appliedMemories (afterVendorMemories invoice memories)
       @ map correctionTrace (correctionMemories memories)"
    by (simp add: applyMemories_applied afterMemories_def fold_applyCorrectionMemory_applied
        correctionTrace_def)
  have proposals: "proposedCorrections (appliedResult (applyMemories now invoice memories))
       = proposedCorrections (afterVendorMemories invoice memories)
         @ map (\<lambda>k. correctionProposal
                      (correctedRecord (normalizedInvoice (afterVendorMemories invoice memories))
                         (take k (correctionMemories memories)))
                      (correctionMemories memories ! k))
             (suggestedPositions (correctionMemories memories))"
    by (simp add: applyMemories_result afterMemories_def fold_applyCorrectionMemory_proposed)
  have recd: "normalizedInvoice (afterMemories invoice memories)
       = correctedRecord (normalizedInvoice (afterVendorMemories invoice memories))
           (correctionMemories memories)"
    by (simp add: afterMemories_def fold_applyCorrectionMemory_record)
  have result: "(\<forall>field. field \<noteq> ''currency''
          \<or> truthy (correctedRecord (normalizedInvoice (afterVendorMemories invoice memories))
                       (correctionMemories memories) field) \<longrightarrow>
        normalizedInvoice (appliedResult (applyMemories now invoice memories)) field
          = correctedRecord (normalizedInvoice (afterVendorMemories invoice memories))
              (correctionMemories memories) field)"
    using applyMemories_record [of _ invoice memories now] unfolding recd by blast
  have step: "appliedMemories (applyCorrectionMemory cm st) = appliedMemories st @
     [\<lparr>am_memoryId = cm_id cm, am_memoryType = Correction, am_fieldName = cm_fieldName cm,
       am_action = mapConfidenceToAction (cm_confidence cm), am_confidence = cm_confidence cm,
       am_extractedValue = Some (JStr (cm_correctedValue cm))\<rparr>]
   \<and> (mapConfidenceToAction (cm_confidence cm) = auto_applied \<longrightarrow>
        normalizedInvoice (applyCorrectionMemory cm st)
          = (normalizedInvoice st)(cm_fieldName cm \<mapsto> JStr (cm_correctedValue cm))
        \<and> proposedCorrections (applyCorrectionMemory cm st) = proposedCorrections st)
   \<and> (mapConfidenceToAction (cm_confidence cm) = suggested \<longrightarrow>
        normalizedInvoice (applyCorrectionMemory cm st) = normalizedInvoice st
        \<and> (\<exists>pc. proposedCorrections (applyCorrectionMemory cm st) = proposedCorrections st @ [pc]
              \<and> pc_fieldName pc = cm_fieldName cm
              \<and> pc_currentValue pc = normalizedInvoice st (cm_fieldName cm)
              \<and> pc_suggestedValue pc = Some (JStr (cm_correctedValue cm))
              \<and> pc_memoryId pc = cm_id cm \<and> pc_confidence pc = cm_confidence cm))
   \<and> (mapConfidenceToAction (cm_confidence cm) = flagged \<longrightarrow>
        normalizedInvoice (applyCorrectionMemory cm st) = normalizedInvoice st
        \<and> proposedCorrections (applyCorrectionMemory cm st) = proposedCorrections st)
   \<and> drop (length (vendorMemories memories))
        (appliedMemories (appliedResult (applyMemories now invoice memories)))
      = map (\<lambda>cm. \<lparr>am_memoryId = cm_id cm, am_memoryType = Correction,
                    am_fieldName = cm_fieldName cm,
                    am_action = mapConfidenceToAction (cm_confidence cm),
                    am_confidence = cm_confidence cm,
                    am_extractedValue = Some (JStr (cm_correctedValue cm))\<rparr>)
          (correctionMemories memories)"
  proof (intro conjI impI)
    show "appliedMemories (applyCorrectionMemory cm st) = appliedMemories st @
       [\<lparr>am_memoryId = cm_id cm, am_memoryType = Correction, am_fieldName = cm_fieldName cm,
         am_action = mapConfidenceToAction (cm_confidence cm), am_confidence = cm_confidence cm,
         am_extractedValue = Some (JStr (cm_correctedValue cm))\<rparr>]"
      by (rule applyCorrectionMemory_applied)
  next
    assume a: "mapConfidenceToAction (cm_confidence cm) = auto_applied"
    show "normalizedInvoice (applyCorrectionMemory cm st)
            = (normalizedInvoice st)(cm_fieldName cm \<mapsto> JStr (cm_correctedValue cm))"
      using a by (simp add: applyCorrectionMemory_def Let_def)
    show "proposedCorrections (applyCorrectionMemory cm st) = proposedCorrections st"
      using a by (simp add: applyCorrectionMemory_def Let_def)
  next
    assume a: "mapConfidenceToAction (cm_confidence cm) = suggested"
    show "normalizedInvoice (applyCorrectionMemory cm st) = normalizedInvoice st"
      using a by (simp add: applyCorrectionMemory_def Let_def)
    show "\<exists>pc. proposedCorrections (applyCorrectionMemory cm st) = proposedCorrections st @ [pc]
                \<and> pc_fieldName pc = cm_fieldName cm
                \<and> pc_currentValue pc = normalizedInvoice st (cm_fieldName cm)
                \<and> pc_suggestedValue pc = Some (JStr (cm_correctedValue cm))
                \<and> pc_memoryId pc = cm_id cm \<and> pc_confidence pc = cm_confidence cm"
      using a by (simp add: applyCorrectionMemory_def Let_def)
  next
    assume a: "mapConfidenceToAction (cm_confidence cm) = flagged"
    show "normalizedInvoice (applyCorrectionMemory cm st) = normalizedInvoice st"
      using a by (simp add: applyCorrectionMemory_def Let_def)
    show "proposedCorrections (applyCorrectionMemory cm st) = proposedCorrections st"
      using a by (simp add: applyCorrectionMemory_def Let_def)
  next
    show "drop (length (vendorMemories memories))
          (appliedMemories (appliedResult (applyMemories now invoice memories)))
        = map (\<lambda>cm. \<lparr>am_memoryId = cm_id cm, am_memoryType = Correction,
                      am_fieldName = cm_fieldName cm,
                      am_action = mapConfidenceToAction (cm_confidence cm),
                      am_confidence = cm_confidence cm,
                      am_extractedValue = Some (JStr (cm_correctedValue cm))\<rparr>)
            (correctionMemories memories)"
      by (simp add: applyMemories_applied afterMemories_def afterVendorMemories_def
          fold_applyCorrectionMemory_applied fold_applyVendorMemory_applied_length)
  qed
  show ?thesis
    by (rule conjI [OF traces conjI [OF proposals conjI [OF recd conjI [OF result step]]]])
qed

theorem C6_apply_correction_memory_witness:
  "map am_memoryId (appliedMemories (appliedResult
      (applyMemories 0 recallInvoice correctionsRecalled))) = [''q'', ''r'', ''s'']
   \<and> map (\<lambda>pc. (pc_memoryId pc, pc_currentValue pc, pc_suggestedValue pc))
        (proposedCorrections (appliedResult (applyMemories 0 recallInvoice correctionsRecalled)))
       = [(''r'', Some (JStr ''EUR''), Some (JStr ''CHF''))]
   \<and> normalizedInvoice (appliedResult (applyMemories 0 recallInvoice correctionsRecalled))
        ''currency'' = Some (JStr ''EUR'')
   \<and> normalizedInvoice (appliedResult (applyMemories 0 recallInvoice correctionsRecalled))
        ''netTotal'' = None
   \<and> normalizedInvoice (applyCorrectionMemory (exCorrectionMemory ''q'' None ''currency'' 0.9)
        applyState) ''currency'' = Some (JStr ''EUR'')
   \<and> normalizedInvoice (applyCorrectionMemory (exCorrectionMemory ''q'' None ''currency'' 0.75)
        applyState) ''currency'' = Some (JStr ''USD'')
   \<and> length (proposedCorrections (applyCorrectionMemory
        (exCorrectionMemory ''q'' None ''currency'' 0.75) applyState)) = 1
   \<and> normalizedInvoice (applyCorrectionMemory (exCorrectionMemory ''q'' None ''currency'' 0.6)
        applyState) ''currency'' = Some (JStr ''USD'')
   \<and> proposedCorrections (applyCorrectionMemory
        (exCorrectionMemory ''q'' None ''currency'' 0.6) applyState) = []"
proof -
  note stage = C6_apply_correction_memory [where now = 0 and invoice = recallInvoice
      and memories = correctionsRecalled]
  let ?vendor = "normalizedInvoice (afterVendorMemories recallInvoice correctionsRecalled)"
  let ?cms = "correctionMemories correctionsRecalled"
  have v: "appliedMemories (afterVendorMemories recallInvoice correctionsRecalled) = []
      \<and> proposedCorrections (afterVendorMemories recallInvoice correctionsRecalled) = []"
    by (simp add: afterVendorMemories_def correctionsRecalled_def)
  have t: "map am_memoryId (map correctionTrace ?cms) = [''q'', ''r'', ''s'']"
    by (simp add: correctionsRecalled_def correctionTrace_def exCorrectionMemory_def)
  have p: "map (\<lambda>pc. (pc_memoryId pc, pc_currentValue pc, pc_suggestedValue pc))
        (map (\<lambda>k. correctionProposal (correctedRecord ?vendor (take k ?cms)) (?cms ! k))
           (suggestedPositions ?cms))
       = [(''r'', Some (JStr ''EUR''), Some (JStr ''CHF''))]"
    by code_simp
  have c: "correctedRecord ?vendor ?cms ''currency'' = Some (JStr ''EUR'')"
    by code_simp
  have n: "correctedRecord ?vendor ?cms ''netTotal'' = None"
    by code_simp
  have 1: "map am_memoryId (appliedMemories (appliedResult
      (applyMemories 0 recallInvoice correctionsRecalled))) = [''q'', ''r'', ''s'']"
    using stage [THEN conjunct1] v t by simp
  have 2: "map (\<lambda>pc. (pc_memoryId pc, pc_currentValue pc, pc_suggestedValue pc))
        (proposedCorrections (appliedResult (applyMemories 0 recallInvoice correctionsRecalled)))
       = [(''r'', Some (JStr ''EUR''), Some (JStr ''CHF''))]"
    using stage [THEN conjunct2, THEN conjunct1] v p by simp
  have 3: "normalizedInvoice (appliedResult (applyMemories 0 recallInvoice correctionsRecalled))
        ''currency'' = Some (JStr ''EUR'')"
    using stage [THEN conjunct2, THEN conjunct2, THEN conjunct2, THEN conjunct1, THEN spec,
        of "''currency''"] c
    by simp
  have 4: "normalizedInvoice (appliedResult (applyMemories 0 recallInvoice correctionsRecalled))
        ''netTotal'' = None"
    using stage [THEN conjunct2, THEN conjunct2, THEN conjunct2, THEN conjunct1, THEN spec,
        of "''netTotal''"] n
    by simp
  note stepA = C6_apply_correction_memory [where now = 0 and invoice = recallInvoice
      and memories = correctionsRecalled and st = applyState
      and cm = "exCorrectionMemory ''q'' None ''currency'' 0.9",
      THEN conjunct2, THEN conjunct2, THEN conjunct2, THEN conjunct2]
  note stepS = C6_apply_correction_memory [where now = 0 and invoice = recallInvoice
      and memories = correctionsRecalled and st = applyState
      and cm = "exCorrectionMemory ''q'' None ''currency'' 0.75",
      THEN conjunct2, THEN conjunct2, THEN conjunct2, THEN conjunct2]
  note stepF = C6_apply_correction_memory [where now = 0 and invoice = recallInvoice
      and memories = correctionsRecalled and st = applyState
      and cm = "exCorrectionMemory ''q'' None ''currency'' 0.6",
      THEN conjunct2, THEN conjunct2, THEN conjunct2, THEN conjunct2]
  have a: "mapConfidenceToAction (cm_confidence (exCorrectionMemory ''q'' None ''currency'' 0.9))
             = auto_applied"
    by (simp add: mapConfidenceToAction_def exCorrectionMemory_def autoApplyThreshold_def)
  have s: "mapConfidenceToAction (cm_confidence (exCorrectionMemory ''q'' None ''currency'' 0.75))
             = suggested"
    by (simp add: mapConfidenceToAction_def exCorrectionMemory_def autoApplyThreshold_def
        suggestionThreshold_def)
  have f: "mapConfidenceToAction (cm_confidence (exCorrectionMemory ''q'' None ''currency'' 0.6))
             = flagged"
    by (simp add: mapConfidenceToAction_def exCorrectionMemory_def autoApplyThreshold_def
        suggestionThreshold_def)
  have 5: "normalizedInvoice (applyCorrectionMemory (exCorrectionMemory ''q'' None ''currency'' 0.9)
      applyState) ''currency'' = Some (JStr ''EUR'')"
    using stepA [THEN conjunct2, THEN conjunct1, THEN mp, OF a]
    by (simp add: exCorrectionMemory_def)
  have 6: "normalizedInvoice (applyCorrectionMemory (exCorrectionMemory ''q'' None ''currency'' 0.75)
      applyState) ''currency'' = Some (JStr ''USD'')
   \<and> length (proposedCorrections (applyCorrectionMemory
        (exCorrectionMemory ''q'' None ''currency'' 0.75) applyState)) = 1"
    using stepS [THEN conjunct2, THEN conjunct2, THEN conjunct1, THEN mp, OF s]
    by (auto simp: applyState_def)
  have 7: "normalizedInvoice (applyCorrectionMemory (exCorrectionMemory ''q'' None ''currency'' 0.6)
      applyState) ''currency'' = Some (JStr ''USD'')
   \<and> proposedCorrections (applyCorrectionMemory
        (exCorrectionMemory ''q'' None ''currency'' 0.6) applyState) = []"
    using stepF [THEN conjunct2, THEN conjunct2, THEN conjunct2, THEN conjunct1, THEN mp, OF f]
    by (simp add: applyState_def)
  show ?thesis
    using 1 2 3 4 5 6 7 by simp
qed

subsection \<open>Purchase-order matching\<close>

text \<open>
  C4. The quantity bonus of \<open>findMatchingPO\<close> looks an invoice line item up among the
  order lines with \<open>find\<close>, which gives the first order line with the item's code, and
  compares the quantity of that line only. The order below lists the code A twice, with
  the quantities 1 and 2; the invoice of the same vendor and day has the line item
  (A, 2), which agrees with the second order line in code and in quantity. The run
  scores 0.3 for the vendor, 0.2 for the date and 0.3 for the codes, and no 0.1 for the
  quantity: the confidence is 0.8 and no reason \<open>Qty match\<close> is given. (The sums of this
  run, 0.3 + 0.2 and 0.5 + 0.3, are the doubles 0.5 and 0.8 in the arithmetic of the
  source as well.) The vendor test of the loop is \<open>toLowerCase().trim()\<close>, not
  \<open>normalizeVendorName\<close>: an order of the vendor \<open>Acme Corp\<close> is not a candidate for
  an invoice of \<open>Acme  Corp\<close>, although both names have the same normalized vendor key.
\<close>

theorem C4_po_matching_failing_input:
  "\<lparr>poli_sku = ''A'', poli_qty = 2, poli_unitPrice = 5\<rparr>
     \<in> set (po_lineItems (exOrder ''PO-1'' ''Acme'' 0 [(''A'', 1), (''A'', 2)]))
   \<and> invoiceLineItems (itemsInvoice ''Acme'' 0 [(''A'', 2)])
       = Some [\<lparr>li_sku = Some ''A'', li_qty = 2\<rparr>]
   \<and> matchedPO (findMatchingPO [exOrder ''PO-1'' ''Acme'' 0 [(''A'', 1), (''A'', 2)]]
        (itemsInvoice ''Acme'' 0 [(''A'', 2)]))
       = Some (exOrder ''PO-1'' ''Acme'' 0 [(''A'', 1), (''A'', 2)])
   \<and> pm_confidence (findMatchingPO [exOrder ''PO-1'' ''Acme'' 0 [(''A'', 1), (''A'', 2)]]
        (itemsInvoice ''Acme'' 0 [(''A'', 2)])) = 0.8
   \<and> matchReasons (findMatchingPO [exOrder ''PO-1'' ''Acme'' 0 [(''A'', 1), (''A'', 2)]]
        (itemsInvoice ''Acme'' 0 [(''A'', 2)]))
       = [''Vendor match'', ''Date within 0 days'', ''SKU: A'']
   \<and> normalizeVendorName ''Acme  Corp'' = normalizeVendorName ''Acme Corp''
   \<and> matchedPO (findMatchingPO [exOrder ''PO-1'' ''Acme Corp'' 0 []]
        (itemsInvoice ''Acme  Corp'' 0 [])) = None
   \<and> pm_confidence (findMatchingPO [exOrder ''PO-1'' ''Acme Corp'' 0 []]
        (itemsInvoice ''Acme  Corp'' 0 [])) = 0"
  by code_simp

subsection \<open>Learn: updating memories\<close>

lemma find_map_key:
  assumes "\<And>x. key (f x) = key x"
  shows "find (\<lambda>x. key x = k) (map f xs) = map_option f (find (\<lambda>x. key x = k) xs)"
  using assms by (induction xs) auto

lemma find_map_other:
  "find (\<lambda>x. key x = k) (map (\<lambda>x. if key x = i then f x else x) xs)
     = (if i = k then map_option f (find (\<lambda>x. key x = k) xs) else find (\<lambda>x. key x = k) xs)"
  if "\<And>x. key (f x) = key x"
  using that by (induction xs) auto

lemma vm_id_vendorSet: "vm_id (vendorSet u m) = vm_id m"
  by (simp add: vendorSet_def)

lemma cm_id_correctionSet: "cm_id (correctionSet u m) = cm_id m"
  by (simp add: correctionSet_def)

lemma findVendorMemoryById_update:
  "findVendorMemoryById (updateVendorMemory repo i u) k
     = (if i = k then map_option (vendorSet u) (findVendorMemoryById repo k)
        else findVendorMemoryById repo k)"
  unfolding findVendorMemoryById_def updateVendorMemory_def
  using find_map_other [of vm_id "vendorSet u" k i "vendor_memories repo"]
  by (simp add: vm_id_vendorSet)

lemma findCorrectionMemoryById_update:
  "findCorrectionMemoryById (updateCorrectionMemory repo i u) k
     = (if i = k then map_option (correctionSet u) (findCorrectionMemoryById repo k)
        else findCorrectionMemoryById repo k)"
  unfolding findCorrectionMemoryById_def updateCorrectionMemory_def
  using find_map_other [of cm_id "correctionSet u" k i "correction_memories repo"]
  by (simp add: cm_id_correctionSet)

lemma findVendorMemoryById_updateCorrection:
  "findVendorMemoryById (updateCorrectionMemory repo i u) k = findVendorMemoryById repo k"
  by (simp add: findVendorMemoryById_def updateCorrectionMemory_def)

lemma findCorrectionMemoryById_updateVendor:
  "findCorrectionMemoryById (updateVendorMemory repo i u) k = findCorrectionMemoryById repo k"
  by (simp add: findCorrectionMemoryById_def updateVendorMemory_def)

lemmas find_update =
  findVendorMemoryById_update findCorrectionMemoryById_update
  findVendorMemoryById_updateCorrection findCorrectionMemoryById_updateVendor

lemma updateMemory_missing:
  "findExisting repo mem = None \<Longrightarrow> updateMemory now mem action (repo, result) = (repo, result)"
  by (simp add: updateMemory_def)

lemma updateMemory_penalize:
  assumes "findExisting repo mem = Some (c, r, a, n)"
  shows "findExisting (fst (updateMemory now mem penalize (repo, result))) mem
           = Some (applyPenalty c, r + 1,
                   a \<and> r + 1 < maxConsecutiveRejectionsBeforeDeactivation, n)"
    and "deactivatedMemories (snd (updateMemory now mem penalize (repo, result)))
           = deactivatedMemories result @
             (if a \<and> r + 1 < maxConsecutiveRejectionsBeforeDeactivation then []
              else [memoryTypeName (cb_memoryType mem) @ '' '' @ cb_memoryId mem
                    @ '' deactivated''])"
    and "updatedMemories (snd (updateMemory now mem penalize (repo, result)))
           = updatedMemories result @
             (if a \<and> r + 1 < maxConsecutiveRejectionsBeforeDeactivation
              then [memoryTypeName (cb_memoryType mem) @ '' '' @ cb_memoryId mem
                    @ '' penalized: '' @ toFixed 2 c @ arrow @ toFixed 2 (applyPenalty c)]
              else [])"
    and "createdMemories (snd (updateMemory now mem penalize (repo, result)))
           = createdMemories result"
    and "lr_auditEntries (snd (updateMemory now mem penalize (repo, result)))
           = lr_auditEntries result"
  using assms
  by (auto simp: updateMemory_def Let_def findExisting_def find_update vendorSet_def
      correctionSet_def orElse_def updateActionName_def split: if_splits)

lemma updateMemory_other:
  assumes "(cb_memoryType mem = Vendor, cb_memoryId mem) \<noteq> (cb_memoryType other = Vendor, cb_memoryId other)"
  shows "findExisting (fst (updateMemory now mem action (repo, result))) other
           = findExisting repo other"
  using assms
  by (cases "findExisting repo mem")
     (auto simp: updateMemory_def Let_def findExisting_def find_update)

lemma updateMemory_rows:
  "map vm_id (vendor_memories (fst (updateMemory now mem action st))) = map vm_id (vendor_memories (fst st))"
  "map cm_id (correction_memories (fst (updateMemory now mem action st))) = map cm_id (correction_memories (fst st))"
  "resolution_memories (fst (updateMemory now mem action st)) = resolution_memories (fst st)"
  "audit_trail (fst (updateMemory now mem action st)) = audit_trail (fst st)"
  "processed_invoices (fst (updateMemory now mem action st)) = processed_invoices (fst st)"
  by (auto simp: updateMemory_def Let_def updateVendorMemory_def updateCorrectionMemory_def
      vm_id_vendorSet cm_id_correctionSet comp_def split: prod.splits option.splits)

lemma findExisting_key:
  "memoryKey x = memoryKey m \<Longrightarrow> findExisting repo x = findExisting repo m"
  by (simp add: findExisting_def memoryKey_def)

lemma updateMemory_penalize_find:
  "findExisting (fst (updateMemory now mem penalize (repo, result))) mem
     = map_option afterRejection (findExisting repo mem)"
proof (cases "findExisting repo mem")
  case None
  then show ?thesis by (simp add: updateMemory_missing)
next
  case (Some e)
  obtain c r a n where e: "e = (c, r, a, n)" by (cases e)
  with Some show ?thesis
    using updateMemory_penalize(1) [of repo mem c r a n now result]
    by (simp add: afterRejection_def)
qed

lemma updateMemory_penalize_lists:
  "deactivatedMemories (snd (updateMemory now mem penalize (repo, result)))
     = deactivatedMemories result @
       (if becomesInactive (findExisting repo mem) then [deactivatedEntry mem] else [])"
  "updatedMemories (snd (updateMemory now mem penalize (repo, result)))
     = updatedMemories result @
       (if staysActive (findExisting repo mem)
        then [penalizedEntry (findExisting repo mem) mem] else [])"
  "createdMemories (snd (updateMemory now mem penalize (repo, result))) = createdMemories result"
  "lr_auditEntries (snd (updateMemory now mem penalize (repo, result))) = lr_auditEntries result"
proof -
  show "deactivatedMemories (snd (updateMemory now mem penalize (repo, result)))
     = deactivatedMemories result @
       (if becomesInactive (findExisting repo mem) then [deactivatedEntry mem] else [])"
  proof (cases "findExisting repo mem")
    case None
    then show ?thesis by (simp add: updateMemory_missing becomesInactive_def)
  next
    case (Some e)
    obtain c r a n where e: "e = (c, r, a, n)" by (cases e)
    with Some show ?thesis
      using updateMemory_penalize(2) [of repo mem c r a n now result]
      by (simp add: becomesInactive_def deactivatedEntry_def)
  qed
  show "updatedMemories (snd (updateMemory now mem penalize (repo, result)))
     = updatedMemories result @
       (if staysActive (findExisting repo mem)
        then [penalizedEntry (findExisting repo mem) mem] else [])"
  proof (cases "findExisting repo mem")
    case None
    then show ?thesis by (simp add: updateMemory_missing staysActive_def)
  next
    case (Some e)
    obtain c r a n where e: "e = (c, r, a, n)" by (cases e)
    with Some show ?thesis
      using updateMemory_penalize(3) [of repo mem c r a n now result]
      by (simp add: staysActive_def penalizedEntry_def)
  qed
  show "createdMemories (snd (updateMemory now mem penalize (repo, result))) = createdMemories result"
  proof (cases "findExisting repo mem")
    case None
    then show ?thesis by (simp add: updateMemory_missing)
  next
    case (Some e)
    obtain c r a n where e: "e = (c, r, a, n)" by (cases e)
    with Some show ?thesis
      using updateMemory_penalize(4) [of repo mem c r a n now result] by simp
  qed
  show "lr_auditEntries (snd (updateMemory now mem penalize (repo, result))) = lr_auditEntries result"
  proof (cases "findExisting repo mem")
    case None
    then show ?thesis by (simp add: updateMemory_missing)
  next
    case (Some e)
    obtain c r a n where e: "e = (c, r, a, n)" by (cases e)
    with Some show ?thesis
      using updateMemory_penalize(5) [of repo mem c r a n now result] by simp
  qed
qed

lemma updateMemory_other_key:
  "memoryKey other \<noteq> memoryKey mem \<Longrightarrow>
     findExisting (fst (updateMemory now mem action (repo, result))) other
       = findExisting repo other"
  using updateMemory_other [of mem other now action repo result]
  by (auto simp: memoryKey_def)

lemma updateMemory_penalize_any:
  "findExisting (fst (updateMemory now m penalize st)) x
     = (if memoryKey x = memoryKey m then map_option afterRejection (findExisting (fst st) x)
        else findExisting (fst st) x)"
proof (cases st)
  case (Pair repo result)
  show ?thesis
  proof (cases "memoryKey x = memoryKey m")
    case True
    then show ?thesis
      using updateMemory_penalize_find [of now m repo result]
        findExisting_key [OF True, of repo]
        findExisting_key [OF True, of "fst (updateMemory now m penalize (repo, result))"]
      by (simp add: Pair)
  next
    case False
    then show ?thesis
      using updateMemory_other_key [of x m now penalize repo result] by (simp add: Pair)
  qed
qed

lemma timesListed_snoc:
  "timesListed (cs @ [m]) x = timesListed cs x + (if memoryKey m = memoryKey x then 1 else 0)"
  by (simp add: timesListed_def)

lemma fold_penalize_find:
  "findExisting (fst (fold (\<lambda>m. updateMemory now m penalize) cs st)) x
     = afterRejections (fst st) cs x"
proof (induction cs rule: rev_induct)
  case Nil
  show ?case by (simp add: afterRejections_def timesListed_def option.map_id)
next
  case (snoc m cs)
  show ?case
  proof (cases "memoryKey x = memoryKey m")
    case True
    then show ?thesis
      using snoc
      by (simp add: updateMemory_penalize_any afterRejections_def timesListed_snoc
          option.map_comp comp_def)
  next
    case False
    then have "memoryKey m \<noteq> memoryKey x" by metis
    then show ?thesis
      using snoc False
      by (simp add: updateMemory_penalize_any afterRejections_def timesListed_snoc)
  qed
qed

lemma penalizedPositions_less: "k \<in> set (penalizedPositions repo cs) \<Longrightarrow> k < length cs"
  by (simp add: penalizedPositions_def)

lemma deactivatedPositions_less: "k \<in> set (deactivatedPositions repo cs) \<Longrightarrow> k < length cs"
  by (simp add: deactivatedPositions_def)

lemma penalizedPositions_snoc:
  "penalizedPositions repo (cs @ [m])
     = penalizedPositions repo cs
       @ (if staysActive (afterRejections repo cs m) then [length cs] else [])"
proof -
  have "filter (\<lambda>k. staysActive (afterRejections repo (take k (cs @ [m])) ((cs @ [m]) ! k)))
          [0..<length cs]
        = filter (\<lambda>k. staysActive (afterRejections repo (take k cs) (cs ! k))) [0..<length cs]"
    by (rule filter_cong) (simp_all add: nth_append)
  then show ?thesis
    by (simp add: penalizedPositions_def)
qed

lemma deactivatedPositions_snoc:
  "deactivatedPositions repo (cs @ [m])
     = deactivatedPositions repo cs
       @ (if becomesInactive (afterRejections repo cs m) then [length cs] else [])"
proof -
  have "filter (\<lambda>k. becomesInactive (afterRejections repo (take k (cs @ [m])) ((cs @ [m]) ! k)))
          [0..<length cs]
        = filter (\<lambda>k. becomesInactive (afterRejections repo (take k cs) (cs ! k))) [0..<length cs]"
    by (rule filter_cong) (simp_all add: nth_append)
  then show ?thesis
    by (simp add: deactivatedPositions_def)
qed

lemma fold_penalize_lists:
  "updatedMemories (snd (fold (\<lambda>m. updateMemory now m penalize) cs (repo, result)))
     = updatedMemories result
       @ map (\<lambda>k. penalizedEntry (afterRejections repo (take k cs) (cs ! k)) (cs ! k))
           (penalizedPositions repo cs)
   \<and> deactivatedMemories (snd (fold (\<lambda>m. updateMemory now m penalize) cs (repo, result)))
     = deactivatedMemories result
       @ map (\<lambda>k. deactivatedEntry (cs ! k)) (deactivatedPositions repo cs)
   \<and> createdMemories (snd (fold (\<lambda>m. updateMemory now m penalize) cs (repo, result)))
     = createdMemories result
   \<and> lr_auditEntries (snd (fold (\<lambda>m. updateMemory now m penalize) cs (repo, result)))
     = lr_auditEntries result"
proof (induction cs rule: rev_induct)
  case Nil
  show ?case by (simp add: penalizedPositions_def deactivatedPositions_def)
next
  case (snoc m cs)
  obtain repo1 result1 where st1:
    "fold (\<lambda>m. updateMemory now m penalize) cs (repo, result) = (repo1, result1)"
    by (cases "fold (\<lambda>m. updateMemory now m penalize) cs (repo, result)")
  have before: "findExisting repo1 m = afterRejections repo cs m"
    using fold_penalize_find [of now cs "(repo, result)" m] by (simp add: st1)
  have f: "fold (\<lambda>m. updateMemory now m penalize) (cs @ [m]) (repo, result)
             = updateMemory now m penalize (repo1, result1)"
    by (simp add: st1)
  have oldU: "map (\<lambda>k. penalizedEntry (afterRejections repo (take k (cs @ [m])) ((cs @ [m]) ! k))
                        ((cs @ [m]) ! k)) (penalizedPositions repo cs)
             = map (\<lambda>k. penalizedEntry (afterRejections repo (take k cs) (cs ! k)) (cs ! k))
                 (penalizedPositions repo cs)"
  proof (rule map_cong)
    fix k assume "k \<in> set (penalizedPositions repo cs)"
    then have "k < length cs" by (rule penalizedPositions_less)
    then have "take k (cs @ [m]) = take k cs" and "(cs @ [m]) ! k = cs ! k"
      by (simp_all add: nth_append)
    then show "penalizedEntry (afterRejections repo (take k (cs @ [m])) ((cs @ [m]) ! k))
                 ((cs @ [m]) ! k)
               = penalizedEntry (afterRejections repo (take k cs) (cs ! k)) (cs ! k)"
      by simp
  qed (rule refl)
  have oldD: "map (\<lambda>k. deactivatedEntry ((cs @ [m]) ! k)) (deactivatedPositions repo cs)
             = map (\<lambda>k. deactivatedEntry (cs ! k)) (deactivatedPositions repo cs)"
  proof (rule map_cong)
    fix k assume "k \<in> set (deactivatedPositions repo cs)"
    then have "k < length cs" by (rule deactivatedPositions_less)
    then show "deactivatedEntry ((cs @ [m]) ! k) = deactivatedEntry (cs ! k)"
      by (simp add: nth_append)
  qed (rule refl)
  have last: "take (length cs) (cs @ [m]) = cs"
    by simp
  from snoc.IH have ih:
    "updatedMemories result1 = updatedMemories result
       @ map (\<lambda>k. penalizedEntry (afterRejections repo (take k cs) (cs ! k)) (cs ! k))
           (penalizedPositions repo cs)"
    "deactivatedMemories result1 = deactivatedMemories result
       @ map (\<lambda>k. deactivatedEntry (cs ! k)) (deactivatedPositions repo cs)"
    "createdMemories result1 = createdMemories result"
    "lr_auditEntries result1 = lr_auditEntries result"
    by (simp_all add: st1)
  show ?case
    unfolding f
    by (simp add: updateMemory_penalize_lists before ih penalizedPositions_snoc
        deactivatedPositions_snoc oldU oldD last del: take_append)
qed

lemma fold_updateMemory_rows:
  "map vm_id (vendor_memories (fst (fold (\<lambda>m. updateMemory now m action) cs st)))
     = map vm_id (vendor_memories (fst st))
   \<and> map cm_id (correction_memories (fst (fold (\<lambda>m. updateMemory now m action) cs st)))
     = map cm_id (correction_memories (fst st))
   \<and> resolution_memories (fst (fold (\<lambda>m. updateMemory now m action) cs st))
     = resolution_memories (fst st)
   \<and> audit_trail (fst (fold (\<lambda>m. updateMemory now m action) cs st)) = audit_trail (fst st)
   \<and> processed_invoices (fst (fold (\<lambda>m. updateMemory now m action) cs st))
     = processed_invoices (fst st)"
  by (induction cs arbitrary: st) (simp_all add: updateMemory_rows)

lemma findExisting_saveAuditEntry:
  "findExisting (saveAuditEntry repo entry) m = findExisting repo m"
  by (simp add: findExisting_def saveAuditEntry_def findVendorMemoryById_def
      findCorrectionMemoryById_def)

lemma timesListed_distinct:
  assumes "distinct (map memoryKey cs)" and "k < length cs"
  shows "timesListed (take k cs) (cs ! k) = 0"
proof -
  have "memoryKey (cs ! k) \<notin> memoryKey ` set (take k cs)"
  proof
    assume "memoryKey (cs ! k) \<in> memoryKey ` set (take k cs)"
    then obtain j where j: "j < k" "memoryKey (cs ! j) = memoryKey (cs ! k)"
      using assms(2) by (auto simp: in_set_conv_nth)
    with assms have "j = k"
      by (simp add: distinct_conv_nth)
    with j show False by simp
  qed
  then have "\<forall>x \<in> set (take k cs). memoryKey x \<noteq> memoryKey (cs ! k)"
    by (metis imageI)
  then have "filter (\<lambda>x. memoryKey x = memoryKey (cs ! k)) (take k cs) = []"
    by (simp add: filter_empty_conv)
  then show ?thesis
    by (simp add: timesListed_def)
qed

lemma positions_elements:
  "map (\<lambda>k. f (cs ! k)) (filter (\<lambda>k. P (cs ! k)) [0..<length cs]) = map f (filter P cs)"
proof -
  have "map f (filter P (map ((!) cs) [0..<length cs]))
          = map (\<lambda>k. f (cs ! k)) (filter (\<lambda>k. P (cs ! k)) [0..<length cs])"
    by (simp add: filter_map comp_def)
  then show ?thesis
    by (simp add: map_nth)
qed

lemma distinct_positions:
  assumes "distinct (map memoryKey cs)"
  shows "map (\<lambda>k. penalizedEntry (afterRejections repo (take k cs) (cs ! k)) (cs ! k))
           (penalizedPositions repo cs)
         = map (\<lambda>m. penalizedEntry (findExisting repo m) m)
             (filter (\<lambda>m. staysActive (findExisting repo m)) cs)"
    and "map (\<lambda>k. deactivatedEntry (cs ! k)) (deactivatedPositions repo cs)
         = map deactivatedEntry (filter (\<lambda>m. becomesInactive (findExisting repo m)) cs)"
proof -
  have same: "afterRejections repo (take k cs) (cs ! k) = findExisting repo (cs ! k)"
    if "k < length cs" for k
    using timesListed_distinct [OF assms that]
    by (simp add: afterRejections_def option.map_id)
  have p: "penalizedPositions repo cs
             = filter (\<lambda>k. staysActive (findExisting repo (cs ! k))) [0..<length cs]"
    unfolding penalizedPositions_def by (rule filter_cong) (simp_all add: same)
  have d: "deactivatedPositions repo cs
             = filter (\<lambda>k. becomesInactive (findExisting repo (cs ! k))) [0..<length cs]"
    unfolding deactivatedPositions_def by (rule filter_cong) (simp_all add: same)
  have "map (\<lambda>k. penalizedEntry (afterRejections repo (take k cs) (cs ! k)) (cs ! k))
           (penalizedPositions repo cs)
        = map (\<lambda>k. penalizedEntry (findExisting repo (cs ! k)) (cs ! k))
           (penalizedPositions repo cs)"
    by (rule map_cong) (auto dest: penalizedPositions_less simp: same)
  also have "\<dots> = map (\<lambda>m. penalizedEntry (findExisting repo m) m)
             (filter (\<lambda>m. staysActive (findExisting repo m)) cs)"
    unfolding p
    by (rule positions_elements
        [of "\<lambda>m. penalizedEntry (findExisting repo m) m" cs
            "\<lambda>m. staysActive (findExisting repo m)"])
  finally show "map (\<lambda>k. penalizedEntry (afterRejections repo (take k cs) (cs ! k)) (cs ! k))
           (penalizedPositions repo cs)
         = map (\<lambda>m. penalizedEntry (findExisting repo m) m)
             (filter (\<lambda>m. staysActive (findExisting repo m)) cs)" .
  show "map (\<lambda>k. deactivatedEntry (cs ! k)) (deactivatedPositions repo cs)
         = map deactivatedEntry (filter (\<lambda>m. becomesInactive (findExisting repo m)) cs)"
    unfolding d
    by (rule positions_elements [of deactivatedEntry cs "\<lambda>m. becomesInactive (findExisting repo m)"])
qed

lemma learnFromFeedback_reject:
  assumes "hf_action feedback = reject"
  shows "learnFromFeedback num uuid now feedback invoice svc =
     (case fold (\<lambda>m. updateMemory now m penalize)
             (orElse (contributingMemories svc (inv_id invoice)) [])
             (repository svc, \<lparr>createdMemories = [], updatedMemories = [],
                                deactivatedMemories = [], lr_auditEntries = []\<rparr>) of
        (repo, result) \<Rightarrow>
          Inr (result\<lparr>lr_auditEntries := lr_auditEntries result @
                 [\<lparr>ae_step = StepLearn, ae_timestamp = now,
                   ae_details = ''reject on '' @ inv_id invoice @ '': +''
                     @ showNat (length (createdMemories result)) @ '' ~''
                     @ showNat (length (updatedMemories result)) @ '' -''
                     @ showNat (length (deactivatedMemories result))\<rparr>]\<rparr>,
               svc\<lparr>repository :=
                     saveAuditEntry repo
                       \<lparr>sa_invoiceId = inv_id invoice,
                        sa_entry = \<lparr>ae_step = StepLearn, ae_timestamp = now,
                          ae_details = ''reject on '' @ inv_id invoice @ '': +''
                            @ showNat (length (createdMemories result)) @ '' ~''
                            @ showNat (length (updatedMemories result)) @ '' -''
                            @ showNat (length (deactivatedMemories result))\<rparr>\<rparr>,
                   contributingMemories :=
                     (contributingMemories svc)(inv_id invoice := None)\<rparr>))"
  using assms by (simp add: learnFromFeedback_def Let_def case_prod_beta)

subsection \<open>Learn: a rejection\<close>

text \<open>
  C2. A \<open>reject\<close> feedback always returns a result. Every stored memory is then as one
  rejection for each entry of the list registered for the invoice id that names it
  leaves it: in particular a memory that the list names once has its confidence replaced
  by \<open>applyPenalty\<close> of it and its consecutive rejections incremented by one, its
  application count is kept, and it is active afterwards exactly if it was active and
  the incremented counter is below the limit. The entries are reported in the order of
  the list: an entry whose memory is no longer active under its rejection is reported
  among the deactivated memories and not among the updated ones, an entry whose memory
  stays active is reported among the updated memories with the confidence before and
  after, and an entry that names no stored memory is not reported. When the list names no
  memory twice, the reports are those of the list's entries on the store as it was.
  Nothing is created, and no row of the two memory tables is added or removed.
\<close>

theorem C2_reject_penalizes:
  assumes "hf_action feedback = reject"
    and "cs = orElse (contributingMemories svc (inv_id invoice)) []"
  shows "\<exists>result svc'.
     learnFromFeedback num uuid now feedback invoice svc = Inr (result, svc')
     \<and> (\<forall>m. findExisting (repository svc') m = afterRejections (repository svc) cs m)
     \<and> (\<forall>m c r a n. timesListed cs m = 1 \<and> findExisting (repository svc) m = Some (c, r, a, n)
           \<longrightarrow> findExisting (repository svc') m
                 = Some (applyPenalty c, r + 1,
                         a \<and> r + 1 < maxConsecutiveRejectionsBeforeDeactivation, n))
     \<and> updatedMemories result
         = map (\<lambda>k. penalizedEntry (afterRejections (repository svc) (take k cs) (cs ! k)) (cs ! k))
             (penalizedPositions (repository svc) cs)
     \<and> deactivatedMemories result
         = map (\<lambda>k. deactivatedEntry (cs ! k)) (deactivatedPositions (repository svc) cs)
     \<and> (distinct (map memoryKey cs) \<longrightarrow>
          updatedMemories result
            = map (\<lambda>m. penalizedEntry (findExisting (repository svc) m) m)
                (filter (\<lambda>m. staysActive (findExisting (repository svc) m)) cs)
          \<and> deactivatedMemories result
            = map deactivatedEntry
                (filter (\<lambda>m. becomesInactive (findExisting (repository svc) m)) cs))
     \<and> createdMemories result = []
     \<and> map vm_id (vendor_memories (repository svc')) = map vm_id (vendor_memories (repository svc))
     \<and> map cm_id (correction_memories (repository svc'))
         = map cm_id (correction_memories (repository svc))"
proof -
  let ?r0 = "\<lparr>createdMemories = [], updatedMemories = [], deactivatedMemories = [],
              lr_auditEntries = []\<rparr>"
  obtain repo1 result1 where st1:
    "fold (\<lambda>m. updateMemory now m penalize) cs (repository svc, ?r0) = (repo1, result1)"
    by (cases "fold (\<lambda>m. updateMemory now m penalize) cs (repository svc, ?r0)")
  let ?entry = "\<lparr>ae_step = StepLearn, ae_timestamp = now,
                   ae_details = ''reject on '' @ inv_id invoice @ '': +''
                     @ showNat (length (createdMemories result1)) @ '' ~''
                     @ showNat (length (updatedMemories result1)) @ '' -''
                     @ showNat (length (deactivatedMemories result1))\<rparr>"
  let ?result = "result1\<lparr>lr_auditEntries := lr_auditEntries result1 @ [?entry]\<rparr>"
  let ?svc = "svc\<lparr>repository :=
                     saveAuditEntry repo1 \<lparr>sa_invoiceId = inv_id invoice, sa_entry = ?entry\<rparr>,
                   contributingMemories :=
                     (contributingMemories svc)(inv_id invoice := None)\<rparr>"
  have run: "learnFromFeedback num uuid now feedback invoice svc = Inr (?result, ?svc)"
    using learnFromFeedback_reject [OF assms(1), of num uuid now invoice svc] st1
    by (simp add: assms(2) [symmetric])
  have store: "findExisting (repository ?svc) m = afterRejections (repository svc) cs m" for m
    using fold_penalize_find [of now cs "(repository svc, ?r0)" m]
    by (simp add: st1 findExisting_saveAuditEntry)
  have once: "findExisting (repository ?svc) m
                 = Some (applyPenalty c, r + 1,
                         a \<and> r + 1 < maxConsecutiveRejectionsBeforeDeactivation, n)"
    if "timesListed cs m = 1 \<and> findExisting (repository svc) m = Some (c, r, a, n)"
    for m c r a n
    unfolding store using that by (simp add: afterRejections_def afterRejection_def)
  have lists: "updatedMemories result1
         = map (\<lambda>k. penalizedEntry (afterRejections (repository svc) (take k cs) (cs ! k)) (cs ! k))
             (penalizedPositions (repository svc) cs)"
    "deactivatedMemories result1
         = map (\<lambda>k. deactivatedEntry (cs ! k)) (deactivatedPositions (repository svc) cs)"
    "createdMemories result1 = []"
    using fold_penalize_lists [of now cs "repository svc" ?r0] by (simp_all add: st1)
  have rows: "map vm_id (vendor_memories repo1) = map vm_id (vendor_memories (repository svc))"
    "map cm_id (correction_memories repo1) = map cm_id (correction_memories (repository svc))"
    using fold_updateMemory_rows [of now penalize cs "(repository svc, ?r0)"]
    by (simp_all add: st1)
  have u: "updatedMemories ?result
         = map (\<lambda>k. penalizedEntry (afterRejections (repository svc) (take k cs) (cs ! k)) (cs ! k))
             (penalizedPositions (repository svc) cs)"
    using lists(1) by simp
  have d: "deactivatedMemories ?result
         = map (\<lambda>k. deactivatedEntry (cs ! k)) (deactivatedPositions (repository svc) cs)"
    using lists(2) by simp
  have dist: "updatedMemories ?result
            = map (\<lambda>m. penalizedEntry (findExisting (repository svc) m) m)
                (filter (\<lambda>m. staysActive (findExisting (repository svc) m)) cs)
          \<and> deactivatedMemories ?result
            = map deactivatedEntry
                (filter (\<lambda>m. becomesInactive (findExisting (repository svc) m)) cs)"
    if "distinct (map memoryKey cs)"
    unfolding u d using distinct_positions [OF that, of "repository svc"] by simp
  have c: "createdMemories ?result = []"
    using lists(3) by simp
  have v: "map vm_id (vendor_memories (repository ?svc))
             = map vm_id (vendor_memories (repository svc))"
    using rows(1) by (simp add: saveAuditEntry_def)
  have w: "map cm_id (correction_memories (repository ?svc))
             = map cm_id (correction_memories (repository svc))"
    using rows(2) by (simp add: saveAuditEntry_def)
  show ?thesis
    apply (rule exI [of _ ?result])
    apply (rule exI [of _ ?svc])
    apply (intro conjI allI impI)
    apply (rule run)
    apply (rule store)
    apply (erule once)
    apply (rule u)
    apply (rule d)
    apply (erule dist [THEN conjunct1])
    apply (erule dist [THEN conjunct2])
    apply (rule c)
    apply (rule v)
    apply (rule w)
    done
qed

theorem C2_reject_penalizes_witness:
  "\<exists>result svc'.
     learnFromFeedback (\<lambda>x. []) (\<lambda>n. []) 7 rejectFeedback recallInvoice learnService
       = Inr (result, svc')
     \<and> findExisting (repository svc') (rejectedMemories ! 0) = Some (0.42, 3, False, 0)
     \<and> findExisting (repository svc') (rejectedMemories ! 1) = Some (0.63, 1, True, 0)
     \<and> deactivatedMemories result = [''vendor v1 deactivated'']
     \<and> updatedMemories result = [''correction c1 penalized: 0.90'' @ arrow @ ''0.63'']
     \<and> map vm_id (vendor_memories (repository svc')) = [''v1'']"
proof -
  have h1: "hf_action rejectFeedback = reject"
    by (simp add: rejectFeedback_def)
  have h2: "rejectedMemories
              = orElse (contributingMemories learnService (inv_id recallInvoice)) []"
    by (simp add: learnService_def recallInvoice_def orElse_def)
  from C2_reject_penalizes [OF h1 h2, of "\<lambda>x. []" "\<lambda>n. []" 7]
  obtain result svc' where
    run: "learnFromFeedback (\<lambda>x. []) (\<lambda>n. []) 7 rejectFeedback recallInvoice learnService
            = Inr (result, svc')"
    and once: "\<forall>m c r a n. timesListed rejectedMemories m = 1
           \<and> findExisting (repository learnService) m = Some (c, r, a, n)
           \<longrightarrow> findExisting (repository svc') m
                 = Some (applyPenalty c, r + 1,
                         a \<and> r + 1 < maxConsecutiveRejectionsBeforeDeactivation, n)"
    and dist: "distinct (map memoryKey rejectedMemories) \<longrightarrow>
          updatedMemories result
            = map (\<lambda>m. penalizedEntry (findExisting (repository learnService) m) m)
                (filter (\<lambda>m. staysActive (findExisting (repository learnService) m))
                   rejectedMemories)
          \<and> deactivatedMemories result
            = map deactivatedEntry
                (filter (\<lambda>m. becomesInactive (findExisting (repository learnService) m))
                   rejectedMemories)"
    and rows: "map vm_id (vendor_memories (repository svc'))
                 = map vm_id (vendor_memories (repository learnService))"
    by blast
  have v: "timesListed rejectedMemories (rejectedMemories ! 0) = 1
           \<and> findExisting (repository learnService) (rejectedMemories ! 0)
               = Some (0.6, 2, True, 0)"
    by code_simp
  have c: "timesListed rejectedMemories (rejectedMemories ! 1) = 1
           \<and> findExisting (repository learnService) (rejectedMemories ! 1)
               = Some (0.9, 0, True, 0)"
    by code_simp
  have f1: "findExisting (repository svc') (rejectedMemories ! 0) = Some (0.42, 3, False, 0)"
    using once [THEN spec, THEN spec, THEN spec, THEN spec, THEN spec, THEN mp, OF v]
    by (simp add: applyPenalty_def rejectionPenaltyFactor_def
        maxConsecutiveRejectionsBeforeDeactivation_def)
  have f2: "findExisting (repository svc') (rejectedMemories ! 1) = Some (0.63, 1, True, 0)"
    using once [THEN spec, THEN spec, THEN spec, THEN spec, THEN spec, THEN mp, OF c]
    by (simp add: applyPenalty_def rejectionPenaltyFactor_def
        maxConsecutiveRejectionsBeforeDeactivation_def)
  have d: "distinct (map memoryKey rejectedMemories)"
    by code_simp
  have u: "map (\<lambda>m. penalizedEntry (findExisting (repository learnService) m) m)
                (filter (\<lambda>m. staysActive (findExisting (repository learnService) m))
                   rejectedMemories)
           = [''correction c1 penalized: 0.90'' @ arrow @ ''0.63'']"
    by code_simp
  have e: "map deactivatedEntry
                (filter (\<lambda>m. becomesInactive (findExisting (repository learnService) m))
                   rejectedMemories)
           = [''vendor v1 deactivated'']"
    by code_simp
  have f3: "deactivatedMemories result = [''vendor v1 deactivated'']"
    and f4: "updatedMemories result = [''correction c1 penalized: 0.90'' @ arrow @ ''0.63'']"
    using dist d u e by simp_all
  have f5: "map vm_id (vendor_memories (repository svc')) = [''v1'']"
    using rows by (simp add: learnService_def exVendorMemory_def)
  show ?thesis
    apply (rule exI [of _ result])
    apply (rule exI [of _ svc'])
    apply (intro conjI)
    apply (rule run)
    apply (rule f1)
    apply (rule f2)
    apply (rule f3)
    apply (rule f4)
    apply (rule f5)
    done
qed


end
